theory Spec2Isabelle
  imports Main
begin

section \<open>Python string primitives used by DownloadCovidDatasets\<close>

text \<open>
  Python strings are modelled as \<open>string\<close> (lists of 8-bit characters).  The functions
  below are the library operations that \<open>src/lib/DownloadCovidDatasets.py\<close> calls:
  \<open>str.startswith\<close>, the operator \<open>in\<close>, \<open>str.replace\<close>, \<open>str.lower\<close>,
  \<open>str.split\<close> with a one-character separator, and list indexing.
\<close>

datatype error =
    IndexError
  | OverflowError
  | FileNotFoundError
  | FileExistsError
  | IsADirectoryError
  | PermissionError
  | URLError
  | ContentTooShortError

fun startswith :: "string \<Rightarrow> string \<Rightarrow> bool" where
  "startswith s [] = True"
| "startswith [] (p # ps) = False"
| "startswith (c # cs) (p # ps) = (c = p \<and> startswith cs ps)"

text \<open>\<open>str_contains s sub\<close> is Python's \<open>sub in s\<close>.\<close>

fun str_contains :: "string \<Rightarrow> string \<Rightarrow> bool" where
  "str_contains [] sub = (sub = [])"
| "str_contains (c # cs) sub = (startswith (c # cs) sub \<or> str_contains cs sub)"

text \<open>
  \<open>str_replace s old new\<close> is \<open>s.replace(old, new)\<close>: every non-overlapping occurrence of
  \<open>old\<close>, found from the left, is replaced by \<open>new\<close>; with an empty \<open>old\<close> Python puts
  \<open>new\<close> before every character and at the end.
\<close>

function str_replace :: "string \<Rightarrow> string \<Rightarrow> string \<Rightarrow> string" where
  "str_replace [] old new = (if old = [] then new else [])"
| "str_replace (c # cs) old new =
     (if old = [] then new @ c # str_replace cs old new
      else if startswith (c # cs) old
        then new @ str_replace (drop (length old) (c # cs)) old new
      else c # str_replace cs old new)"
  by pat_completeness auto
termination
  by (relation "measure (\<lambda>(s, old, new). length s)") auto

text \<open>\<open>str_lower\<close> is \<open>str.lower\<close> on the ASCII letters; other characters are unchanged.\<close>

definition lower_char :: "char \<Rightarrow> char" where
  "lower_char c =
     (case map_of (zip ''ABCDEFGHIJKLMNOPQRSTUVWXYZ'' ''abcdefghijklmnopqrstuvwxyz'') c of
        None \<Rightarrow> c
      | Some l \<Rightarrow> l)"

definition str_lower :: "string \<Rightarrow> string" where
  "str_lower s = map lower_char s"

text \<open>\<open>str_split s sep\<close> is \<open>s.split(sep)\<close> for a separator of one character.\<close>

fun str_split :: "string \<Rightarrow> char \<Rightarrow> string list" where
  "str_split [] sep = [[]]"
| "str_split (c # cs) sep =
     (if c = sep then [] # str_split cs sep
      else (case str_split cs sep of
              [] \<Rightarrow> [[c]]
            | x # xs \<Rightarrow> (c # x) # xs))"

text \<open>\<open>index xs i\<close> is \<open>xs[i]\<close> for a non-negative \<open>i\<close>: out of range raises IndexError.\<close>

definition index :: "'a list \<Rightarrow> nat \<Rightarrow> error + 'a" where
  "index xs i = (if i < length xs then Inr (xs ! i) else Inl IndexError)"

section \<open>Dates: \<open>datetime\<close>, \<open>timedelta(days=1)\<close> and \<open>strftime\<close>\<close>

text \<open>
  A naive \<open>datetime\<close> as Python stores it.  \<open>downloadParanaDataset\<close> reads the clock with
  \<open>datetime.now()\<close>; in the model the value read is the parameter \<open>now\<close> of the call.
\<close>

record datetime =
  year :: nat
  month :: nat
  day :: nat
  hour :: nat
  minute :: nat
  second :: nat
  microsecond :: nat

definition is_leap :: "nat \<Rightarrow> bool" where
  "is_leap y = (y mod 4 = 0 \<and> (y mod 100 \<noteq> 0 \<or> y mod 400 = 0))"

definition days_in_month :: "nat \<Rightarrow> nat \<Rightarrow> nat" where
  "days_in_month y m =
     (if m = 2 then (if is_leap y then 29 else 28)
      else if m = 4 \<or> m = 6 \<or> m = 9 \<or> m = 11 then 30
      else 31)"

text \<open>The values a \<open>datetime\<close> object can hold (MINYEAR = 1, MAXYEAR = 9999).\<close>

definition valid_datetime :: "datetime \<Rightarrow> bool" where
  "valid_datetime d =
     (1 \<le> year d \<and> year d \<le> 9999 \<and> 1 \<le> month d \<and> month d \<le> 12 \<and>
      1 \<le> day d \<and> day d \<le> days_in_month (year d) (month d) \<and>
      hour d < 24 \<and> minute d < 60 \<and> second d < 60 \<and> microsecond d < 1000000)"

text \<open>\<open>d - timedelta(days=1)\<close>; before 0001-01-01 Python raises OverflowError.\<close>

definition minus_one_day :: "datetime \<Rightarrow> error + datetime" where
  "minus_one_day d =
     (if 1 < day d then Inr (d\<lparr>day := day d - 1\<rparr>)
      else if 1 < month d
        then Inr (d\<lparr>month := month d - 1, day := days_in_month (year d) (month d - 1)\<rparr>)
      else if 1 < year d then Inr (d\<lparr>year := year d - 1, month := 12, day := 31\<rparr>)
      else Inl OverflowError)"

text \<open>\<open>a >= b\<close> on naive datetimes: lexicographic on the seven fields.\<close>

definition datetime_ge :: "datetime \<Rightarrow> datetime \<Rightarrow> bool" where
  "datetime_ge a b =
     (year a > year b \<or> (year a = year b \<and>
     (month a > month b \<or> (month a = month b \<and>
     (day a > day b \<or> (day a = day b \<and>
     (hour a > hour b \<or> (hour a = hour b \<and>
     (minute a > minute b \<or> (minute a = minute b \<and>
     (second a > second b \<or> (second a = second b \<and>
      microsecond a \<ge> microsecond b))))))))))))"

text \<open>
  Decimal digits.  \<open>%d\<close> and \<open>%m\<close> are zero-padded to two digits and \<open>%Y\<close> to four, as
  the Python documentation of \<open>strftime\<close> gives them.
\<close>

definition digit :: "nat \<Rightarrow> char" where
  "digit n = ''0123456789'' ! (n mod 10)"

definition pad2 :: "nat \<Rightarrow> string" where
  "pad2 n = [digit (n div 10), digit n]"

definition pad4 :: "nat \<Rightarrow> string" where
  "pad4 n = [digit (n div 1000), digit (n div 100), digit (n div 10), digit n]"

text \<open>\<open>d.strftime('%Y-%m')\<close> and \<open>d.strftime('%d_%m_%Y')\<close>.\<close>

definition strftime_Y_m :: "datetime \<Rightarrow> string" where
  "strftime_Y_m d = pad4 (year d) @ ''-'' @ pad2 (month d)"

definition strftime_d_m_Y :: "datetime \<Rightarrow> string" where
  "strftime_d_m_Y d = pad2 (day d) @ ''_'' @ pad2 (month d) @ ''_'' @ pad4 (year d)"

section \<open>The class state and the world it acts on\<close>

text \<open>
  The class attributes \<open>__urlHopkinsDatasets\<close> and \<open>__urlOwnDatasets\<close> are never assigned
  after the class body, so they are constants.  \<open>__urlParanaDataset\<close> and
  \<open>__datasetsDir\<close> are assigned by methods, so they are fields of the state.
\<close>

definition urlHopkinsDatasets :: string where
  "urlHopkinsDatasets =
     ''https://raw.githubusercontent.com/CSSEGISandData/COVID-19/master/csse_covid_19_data/csse_covid_19_time_series/time_series_covid19_#VAR1#_global.csv''"

definition urlParanaDataset_init :: string where
  "urlParanaDataset_init =
     ''https://www.saude.pr.gov.br/sites/default/arquivos_restritos/files/documento/#VAR1#/informe_epidemiologico_#VAR2#_geral.csv''"

definition urlOwnDatasets :: string where
  "urlOwnDatasets =
     ''https://raw.githubusercontent.com/FlavioLucasFer/datascience/master/datasets/#VAR1#.csv''"

definition datasetsDir_init :: string where
  "datasetsDir_init = ''./datasets-covid''"

text \<open>
  What the outside world does to a call of \<open>urlretrieve\<close>: the whole body arrives,
  or the call raises before anything is written (the request is refused, the file
  cannot be opened), or the transfer breaks after a first part has been written.
\<close>

datatype response =
    Body string
  | Refused error
  | Cut string error

text \<open>
  The state threaded through every method: the two mutable class attributes, and the
  world the methods touch.  A path is the string the code passes.  \<open>dirs\<close> are the
  paths that name a directory, \<open>files\<close> maps each path that names a regular file to
  its content, and \<open>specials\<close> are the paths that name anything else (a device, a
  pipe, a socket).  \<open>mkdirs\<close> lists the paths handed to \<open>os.mkdir\<close> so far and
  \<open>requests\<close> the URLs handed to \<open>urlretrieve\<close> so far (the network calls);
  \<open>stdout\<close> holds the lines printed so far.

  What the model cannot decide from these is left to the world: \<open>mkdir_env k\<close> says
  whether the \<open>k\<close>-th call of \<open>os.mkdir\<close> raises for a reason of its own (a missing
  parent, no permission), and \<open>net k url\<close> how the \<open>k\<close>-th call of \<open>urlretrieve\<close>
  fares.  Both are arbitrary, so every run of the code is a run of the model in some
  world.
\<close>

record state =
  urlParanaDataset :: string
  datasetsDir :: string
  dirs :: "string set"
  files :: "string \<rightharpoonup> string"
  specials :: "string set"
  mkdir_env :: "nat \<Rightarrow> error option"
  net :: "nat \<Rightarrow> string \<Rightarrow> response"
  mkdirs :: "string list"
  requests :: "string list"
  stdout :: "string list"

definition print :: "string \<Rightarrow> state \<Rightarrow> state" where
  "print line s = s\<lparr>stdout := stdout s @ [line]\<rparr>"

definition isdir :: "state \<Rightarrow> string \<Rightarrow> bool" where
  "isdir s p = (p \<in> dirs s)"

definition isfile :: "state \<Rightarrow> string \<Rightarrow> bool" where
  "isfile s p = (p \<in> dom (files s))"

text \<open>\<open>os.path.exists\<close>: the path names something.\<close>

definition path_exists :: "state \<Rightarrow> string \<Rightarrow> bool" where
  "path_exists s p = (isdir s p \<or> isfile s p \<or> p \<in> specials s)"

text \<open>
  \<open>os.mkdir\<close>: the empty path and a path that names something already always raise;
  otherwise the world decides, and when the call goes through the path names a
  directory.
\<close>

definition mkdir :: "string \<Rightarrow> state \<Rightarrow> error + state" where
  "mkdir p s =
     (if p = [] then Inl FileNotFoundError
      else if path_exists s p then Inl FileExistsError
      else (case mkdir_env s (length (mkdirs s)) of
              Some e \<Rightarrow> Inl e
            | None \<Rightarrow> Inr (s\<lparr>dirs := insert p (dirs s), mkdirs := mkdirs s @ [p]\<rparr>)))"

text \<open>
  What is found at \<open>path\<close> after \<open>content\<close> has been written to it: a regular file
  with that content, unless the path names a device, a pipe or a socket, which takes
  the bytes and stays what it is.
\<close>

definition write_file :: "string \<Rightarrow> string \<Rightarrow> state \<Rightarrow> state" where
  "write_file path content s =
     (if path \<in> specials s then s else s\<lparr>files := (files s)(path \<mapsto> content)\<rparr>)"

text \<open>
  \<open>urllib.request.urlretrieve(url, path)\<close>: the request is made first; when it is
  answered, the file is opened for writing, which a directory and the empty path
  refuse, and what arrives is written to it, replacing what was there.
\<close>

definition urlretrieve :: "string \<Rightarrow> string \<Rightarrow> state \<Rightarrow> (error + unit) \<times> state" where
  "urlretrieve url path s =
     (let s1 = s\<lparr>requests := requests s @ [url]\<rparr>
      in case net s (length (requests s)) url of
           Refused e \<Rightarrow> (Inl e, s1)
         | Cut part e \<Rightarrow>
             if path = [] then (Inl FileNotFoundError, s1)
             else if isdir s path \<or> last path = CHR ''/'' then (Inl IsADirectoryError, s1)
             else (Inl e, write_file path part s1)
         | Body body \<Rightarrow>
             if path = [] then (Inl FileNotFoundError, s1)
             else if isdir s path \<or> last path = CHR ''/'' then (Inl IsADirectoryError, s1)
             else (Inr (), write_file path body s1))"

section \<open>The methods of \<open>DownloadCovidDatasets\<close>\<close>

text \<open>
  A method that can raise returns \<open>(error + 'a) \<times> state\<close>: the state reached is kept
  when an exception leaves the method, as the class attributes and the file system
  are in Python.
\<close>

definition getUrlHopkinsDatasets :: string where
  "getUrlHopkinsDatasets = urlHopkinsDatasets"

definition getUrlHopkinsGlobalConfirmedCases :: string where
  "getUrlHopkinsGlobalConfirmedCases = str_replace getUrlHopkinsDatasets ''#VAR1#'' ''confirmed''"

definition getUrlHopkinsGlobalDeaths :: string where
  "getUrlHopkinsGlobalDeaths = str_replace getUrlHopkinsDatasets ''#VAR1#'' ''deaths''"

definition getUrlHopkinsGlobalRecovered :: string where
  "getUrlHopkinsGlobalRecovered = str_replace getUrlHopkinsDatasets ''#VAR1#'' ''recovered''"

definition getUrlParanaDataset :: "state \<Rightarrow> string" where
  "getUrlParanaDataset s = urlParanaDataset s"

definition setUrlParanaDataset :: "string \<Rightarrow> string \<Rightarrow> state \<Rightarrow> state" where
  "setUrlParanaDataset yearAndMonth targetDate s =
     s\<lparr>urlParanaDataset :=
         str_replace (str_replace (urlParanaDataset s) ''#VAR1#'' yearAndMonth)
           ''#VAR2#'' targetDate\<rparr>"

definition getUrlOwnDatasets :: string where
  "getUrlOwnDatasets = urlOwnDatasets"

definition getDatasetsDir :: "state \<Rightarrow> string" where
  "getDatasetsDir s = datasetsDir s"

definition setDatasetsDir :: "string \<Rightarrow> state \<Rightarrow> state" where
  "setDatasetsDir newDir s = s\<lparr>datasetsDir := newDir\<rparr>"

text \<open>
  The two checks take the state and give it back with their answer, like every other
  method, so that what they leave behind can be stated.
\<close>

definition checkDatasetDir :: "string \<Rightarrow> state \<Rightarrow> bool \<times> state" where
  "checkDatasetDir dirArg s =
     (let dir = (if dirArg \<noteq> [] then dirArg else datasetsDir s)
      in if isdir s dir then (True, s) else (False, s))"

definition checkDataset :: "string \<Rightarrow> string \<Rightarrow> state \<Rightarrow> bool \<times> state" where
  "checkDataset datasetName dirArg s =
     (let dir = (if dirArg \<noteq> [] then dirArg else datasetsDir s);
          datasetPath = dir @ ''/'' @ datasetName
      in if isfile s datasetPath then (True, s) else (False, s))"

definition quoted :: "string \<Rightarrow> string" where
  "quoted x = [CHR 0x27] @ x @ [CHR 0x27]"

definition downloadDataset ::
  "string \<Rightarrow> string \<Rightarrow> string \<Rightarrow> bool \<Rightarrow> state \<Rightarrow> (error + string) \<times> state" where
  "downloadDataset url dirToSave csvFileName overwrite s =
     (let datasetPath = dirToSave @ ''/'' @ csvFileName;
          (dirExists, s0) = checkDatasetDir dirToSave s
      in case (if \<not> dirExists then mkdir dirToSave s0
               else Inr (print (''The target directory '' @ quoted dirToSave @ '' already exists.'') s0)) of
           Inl e \<Rightarrow> (Inl e, s0)
         | Inr s1 \<Rightarrow>
             (let s2 = print (''Url: '' @ url) s1;
                  (fileExists, s3) = checkDataset csvFileName dirToSave s2
              in if \<not> fileExists \<or> overwrite
                 then (case urlretrieve url datasetPath (print ''Downloading csv file...'' s3) of
                         (Inl e, s4) \<Rightarrow> (Inl e, s4)
                       | (Inr u, s4) \<Rightarrow>
                           (Inr datasetPath,
                            print (''Dataset path: '' @ datasetPath) (print ''Download success!'' s4)))
                 else (Inr datasetPath,
                       print (''Dataset path: '' @ datasetPath)
                         (print (''Csv file '' @ quoted csvFileName @ '' already downloaded!'') s3))))"

text \<open>
  Lines 286 to 304 of \<open>downloadParanaDataset\<close>: the two fragments \<open>yearAndMonth\<close> and
  \<open>targetDate\<close>, from the explicit date \<open>tDate\<close> or from the clock.
\<close>

definition paranaDatasetUpdateHour :: "datetime \<Rightarrow> datetime" where
  "paranaDatasetUpdateHour now = now\<lparr>hour := 15, minute := 0, second := 0, microsecond := 0\<rparr>"

definition paranaFragments :: "string \<Rightarrow> datetime \<Rightarrow> error + (string \<times> string)" where
  "paranaFragments tDate now =
     (if tDate \<noteq> [] then
        (let date = str_split tDate (CHR ''/'')
         in case index date 2 of
              Inl e \<Rightarrow> Inl e
            | Inr d2 \<Rightarrow>
                (case index date 1 of
                   Inl e \<Rightarrow> Inl e
                 | Inr d1 \<Rightarrow>
                     (case index date 0 of
                        Inl e \<Rightarrow> Inl e
                      | Inr d0 \<Rightarrow> Inr (d2 @ ''-'' @ d1, d0 @ ''_'' @ d1 @ ''_'' @ d2))))
      else
        (let currentTime = now\<lparr>hour := hour now, minute := minute now, second := second now,
                                microsecond := microsecond now\<rparr>;
             yearAndMonth = strftime_Y_m now
         in if datetime_ge currentTime (paranaDatasetUpdateHour now)
            then Inr (yearAndMonth, strftime_d_m_Y now)
            else (case minus_one_day now of
                    Inl e \<Rightarrow> Inl e
                  | Inr yesterday \<Rightarrow> Inr (yearAndMonth, strftime_d_m_Y yesterday))))"

definition downloadParanaDataset ::
  "string \<Rightarrow> string \<Rightarrow> string \<Rightarrow> bool \<Rightarrow> bool \<Rightarrow> datetime \<Rightarrow> state \<Rightarrow> (error + string) \<times> state" where
  "downloadParanaDataset csvFileName tDate dirArg csvFileNameWithTDate overwrite now s =
     (let dirToSave = (if dirArg \<noteq> [] then dirArg else getDatasetsDir s)
      in case paranaFragments tDate now of
           Inl e \<Rightarrow> (Inl e, s)
         | Inr (yearAndMonth, targetDate) \<Rightarrow>
             (let s1 = setUrlParanaDataset yearAndMonth targetDate s;
                  csvFileName1 = (if csvFileNameWithTDate
                                  then csvFileName @ ''_'' @ targetDate @ ''.csv''
                                  else csvFileName @ ''.csv'')
              in downloadDataset (getUrlParanaDataset s1) dirToSave csvFileName1 overwrite s1))"

definition kind_warning :: string where
  "kind_warning = ''Kind argument only suports: 'confirmed', 'deaths' or 'recovered' values!''"

text \<open>Line 356 of \<open>downloadHopkinsDataset\<close>: the URL that is downloaded.\<close>

definition hopkinsUrl :: "string \<Rightarrow> string" where
  "hopkinsUrl kind = str_replace getUrlHopkinsGlobalConfirmedCases ''#VAR1#'' kind"

definition downloadHopkinsDataset ::
  "string \<Rightarrow> string \<Rightarrow> string \<Rightarrow> bool \<Rightarrow> bool \<Rightarrow> datetime \<Rightarrow> state \<Rightarrow> (error + string) \<times> state" where
  "downloadHopkinsDataset csvFileName kind dirArg csvFileNameWithTDate overwrite now s =
     (let dirToSave = (if dirArg \<noteq> [] then dirArg else getDatasetsDir s);
          (csvFileName1, s1) =
            (if str_lower kind = ''confirmed'' then (csvFileName @ ''confirmed_cases'', s)
             else if str_lower kind = ''deaths'' then (csvFileName @ ''deaths'', s)
             else if str_lower kind = ''recovered'' then (csvFileName @ ''recovered'', s)
             else (csvFileName, print kind_warning s));
          csvFileName2 = (if csvFileNameWithTDate
                          then csvFileName1 @ ''_'' @ strftime_d_m_Y now @ ''.csv''
                          else csvFileName1 @ ''.csv'');
          url = hopkinsUrl kind
      in downloadDataset url dirToSave csvFileName2 overwrite s1)"

definition downloadParanaCitiesWithIBGECodeDataset ::
  "string \<Rightarrow> string \<Rightarrow> bool \<Rightarrow> state \<Rightarrow> (error + string) \<times> state" where
  "downloadParanaCitiesWithIBGECodeDataset csvFileName dirArg overwrite s =
     (let dirToSave = (if dirArg \<noteq> [] then dirArg else getDatasetsDir s);
          url = str_replace getUrlOwnDatasets ''#VAR1#'' ''parana_cities_with_ibge_code''
      in downloadDataset url dirToSave csvFileName overwrite s)"

definition downloadParanavaiRegionCitiesWithIBGECodeDataset ::
  "string \<Rightarrow> string \<Rightarrow> bool \<Rightarrow> state \<Rightarrow> (error + string) \<times> state" where
  "downloadParanavaiRegionCitiesWithIBGECodeDataset csvFileName dirArg overwrite s =
     (let dirToSave = (if dirArg \<noteq> [] then dirArg else getDatasetsDir s);
          url = str_replace getUrlOwnDatasets ''#VAR1#'' ''parana_cities_with_ibge_code''
      in downloadDataset url dirToSave csvFileName overwrite s)"

text \<open>The default values of the keyword parameter \<open>csvFileName\<close> of the two methods above.\<close>

definition paranaCities_csvFileName_default :: string where
  "paranaCities_csvFileName_default = ''parana_cities_with_ibge_code.csv''"

definition paranavaiRegion_csvFileName_default :: string where
  "paranavaiRegion_csvFileName_default = ''paranavai_region_cities_with_ibge_code.csv''"

text \<open>The class as loaded, in a given world.\<close>

definition fresh ::
  "string set \<Rightarrow> (string \<rightharpoonup> string) \<Rightarrow> (nat \<Rightarrow> error option)
   \<Rightarrow> (nat \<Rightarrow> string \<Rightarrow> response) \<Rightarrow> state" where
  "fresh ds fs menv nenv =
     \<lparr>urlParanaDataset = urlParanaDataset_init, datasetsDir = datasetsDir_init,
      dirs = ds, files = fs, specials = {}, mkdir_env = menv, net = nenv,
      mkdirs = [], requests = [], stdout = []\<rparr>"

section \<open>Definitions used to state the properties\<close>

text \<open>
  The two phases of \<open>downloadDataset\<close>: lines 244 to 247 make sure the directory is
  there, lines 249 to 261 fetch the file unless it is already there.
\<close>

definition dir_step :: "string \<Rightarrow> state \<Rightarrow> error + state" where
  "dir_step d s =
     (if \<not> isdir s (if d \<noteq> [] then d else datasetsDir s) then mkdir d s
      else Inr (print (''The target directory '' @ quoted d @ '' already exists.'') s))"

definition fetch_step ::
  "string \<Rightarrow> string \<Rightarrow> string \<Rightarrow> bool \<Rightarrow> state \<Rightarrow> (error + string) \<times> state" where
  "fetch_step url d n ow s1 =
     (if \<not> isfile s1 ((if d \<noteq> [] then d else datasetsDir s1) @ ''/'' @ n) \<or> ow
      then (case urlretrieve url (d @ ''/'' @ n)
                   (print ''Downloading csv file...'' (print (''Url: '' @ url) s1)) of
              (Inl e, s4) \<Rightarrow> (Inl e, s4)
            | (Inr u, s4) \<Rightarrow>
                (Inr (d @ ''/'' @ n),
                 print (''Dataset path: '' @ d @ ''/'' @ n) (print ''Download success!'' s4)))
      else (Inr (d @ ''/'' @ n),
            print (''Dataset path: '' @ d @ ''/'' @ n)
              (print (''Csv file '' @ quoted n @ '' already downloaded!'')
                 (print (''Url: '' @ url) s1))))"

text \<open>The template of the regional report with both placeholders filled in.\<close>

definition paranaUrlWith :: "string \<Rightarrow> string \<Rightarrow> string" where
  "paranaUrlWith ym td =
     ''https://www.saude.pr.gov.br/sites/default/arquivos_restritos/files/documento/'' @ ym
       @ ''/informe_epidemiologico_'' @ td @ ''_geral.csv''"

text \<open>
  The proleptic Gregorian ordinal of a date, as \<open>date.toordinal\<close> computes it
  (\<open>_days_before_year\<close>, \<open>_days_before_month\<close> and \<open>_ymd2ord\<close> of the module
  \<open>datetime\<close>): the day before a date is the date whose ordinal is one less.
\<close>

definition days_before_year :: "nat \<Rightarrow> nat" where
  "days_before_year y = (let k = y - 1 in 365 * k + k div 4 + k div 400 - k div 100)"

definition days_before_month :: "nat \<Rightarrow> nat \<Rightarrow> nat" where
  "days_before_month y m = sum_list (map (days_in_month y) [1..<m])"

definition toordinal :: "datetime \<Rightarrow> nat" where
  "toordinal d = days_before_year (year d) + days_before_month (year d) (month d) + day d"

text \<open>
  Concrete worlds and moments for the examples.  In all of them no call of \<open>os.mkdir\<close>
  is refused and every request is answered; there is nothing on disk, or the file
  \<open>d/f.csv\<close>, or the default directory.
\<close>

definition mkdir_ok :: "nat \<Rightarrow> error option" where
  "mkdir_ok = (\<lambda>k. None)"

definition net_all :: "nat \<Rightarrow> string \<Rightarrow> response" where
  "net_all = (\<lambda>k u. Body ''body'')"

definition world_empty :: state where
  "world_empty = fresh {} Map.empty mkdir_ok net_all"

definition world_with_file :: state where
  "world_with_file = fresh {''d''} [''d/f.csv'' \<mapsto> ''old''] mkdir_ok net_all"

definition world_default_dir :: state where
  "world_default_dir = fresh {''./datasets-covid''} Map.empty mkdir_ok net_all"

text \<open>A world with the device \<open>/dev/null\<close>.\<close>

definition world_dev_null :: state where
  "world_dev_null = (fresh {''/dev''} Map.empty mkdir_ok net_all)\<lparr>specials := {''/dev/null''}\<rparr>"

definition now_0301_1000 :: datetime where
  "now_0301_1000 =
     \<lparr>year = 2021, month = 3, day = 1, hour = 10, minute = 0, second = 0, microsecond = 0\<rparr>"

definition now_1500 :: datetime where
  "now_1500 =
     \<lparr>year = 2021, month = 3, day = 5, hour = 15, minute = 0, second = 0, microsecond = 0\<rparr>"

definition now_1459 :: datetime where
  "now_1459 =
     \<lparr>year = 2021, month = 3, day = 5, hour = 14, minute = 59, second = 59, microsecond = 0\<rparr>"

section \<open>Facts about the string primitives\<close>

lemma startswith_append: "startswith (p @ s) p"
  by (induction p) auto

lemma str_replace_absent:
  "\<not> str_contains s old \<Longrightarrow> str_replace s old new = s"
proof (induction s)
  case Nil
  then show ?case by simp
next
  case (Cons c cs)
  then show ?case by (cases old) auto
qed

lemma not_contains_fresh: "c \<notin> set s \<Longrightarrow> \<not> str_contains s (c # rest)"
  by (induction s) auto

lemma str_replace_skip:
  "c \<notin> set a \<Longrightarrow> str_replace (a @ s) (c # rest) new = a @ str_replace s (c # rest) new"
  by (induction a) auto

lemma set_str_split: "\<Union> (set ` set (str_split s sep)) \<subseteq> set s"
proof (induction s)
  case Nil
  then show ?case by simp
next
  case (Cons c cs)
  show ?case
  proof (cases "c = sep")
    case True
    with Cons show ?thesis by auto
  next
    case False
    show ?thesis
    proof (cases "str_split cs sep")
      case Nil
      with False show ?thesis by simp
    next
      case (Cons x xs)
      with False Cons.IH show ?thesis by auto
    qed
  qed
qed

lemma index_str_split:
  assumes "index (str_split s sep) i = Inr x"
  shows "set x \<subseteq> set s"
proof -
  from assms have "x \<in> set (str_split s sep)"
    by (auto simp: index_def split: if_splits)
  then show ?thesis using set_str_split [of s sep] by blast
qed

lemma lower_Confirmed: "str_lower ''Confirmed'' = ''confirmed''"
  by (simp add: str_lower_def lower_char_def)

lemma lower_deaths: "str_lower ''deaths'' = ''deaths''"
  by (simp add: str_lower_def lower_char_def)

lemma lower_active: "str_lower ''active'' \<notin> {''confirmed'', ''deaths'', ''recovered''}"
  by (simp add: str_lower_def lower_char_def)

section \<open>Facts about the URL templates\<close>

lemma hopkins_confirmed_value:
  "getUrlHopkinsGlobalConfirmedCases =
     ''https://raw.githubusercontent.com/CSSEGISandData/COVID-19/master/csse_covid_19_data/csse_covid_19_time_series/time_series_covid19_confirmed_global.csv''"
  by (simp add: getUrlHopkinsGlobalConfirmedCases_def getUrlHopkinsDatasets_def
      urlHopkinsDatasets_def)

lemma hopkins_deaths_value:
  "getUrlHopkinsGlobalDeaths =
     ''https://raw.githubusercontent.com/CSSEGISandData/COVID-19/master/csse_covid_19_data/csse_covid_19_time_series/time_series_covid19_deaths_global.csv''"
  by (simp add: getUrlHopkinsGlobalDeaths_def getUrlHopkinsDatasets_def urlHopkinsDatasets_def)

text \<open>
  The URL of \<open>downloadHopkinsDataset\<close> does not depend on \<open>kind\<close>: the placeholder is
  already gone from what \<open>getUrlHopkinsGlobalConfirmedCases\<close> returns.
\<close>

lemma hopkinsUrl_any: "hopkinsUrl kind = getUrlHopkinsGlobalConfirmedCases"
  unfolding hopkinsUrl_def
  by (rule str_replace_absent) (simp add: hopkins_confirmed_value)

lemma own_url_value:
  "str_replace getUrlOwnDatasets ''#VAR1#'' ''parana_cities_with_ibge_code''
   = ''https://raw.githubusercontent.com/FlavioLucasFer/datascience/master/datasets/parana_cities_with_ibge_code.csv''"
  by (simp add: getUrlOwnDatasets_def urlOwnDatasets_def)

lemma parana_first:
  "str_replace urlParanaDataset_init ''#VAR1#'' ym
   = ''https://www.saude.pr.gov.br/sites/default/arquivos_restritos/files/documento/'' @ ym
       @ ''/informe_epidemiologico_#VAR2#_geral.csv''"
  by (simp add: urlParanaDataset_init_def)

lemma parana_second:
  assumes "CHR ''#'' \<notin> set ym"
  shows "str_replace (str_replace urlParanaDataset_init ''#VAR1#'' ym) ''#VAR2#'' td
         = paranaUrlWith ym td"
proof -
  let ?a = "''https://www.saude.pr.gov.br/sites/default/arquivos_restritos/files/documento/''
              @ ym @ ''/informe_epidemiologico_''"
  have a: "CHR ''#'' \<notin> set ?a" using assms by simp
  have "str_replace (str_replace urlParanaDataset_init ''#VAR1#'' ym) ''#VAR2#'' td
        = str_replace (?a @ ''#VAR2#'' @ ''_geral.csv'') ''#VAR2#'' td"
    by (simp add: parana_first)
  also have "\<dots> = ?a @ str_replace (''#VAR2#'' @ ''_geral.csv'') ''#VAR2#'' td"
    using str_replace_skip [OF a] by simp
  also have "\<dots> = ?a @ td @ ''_geral.csv''"
    by simp
  finally show ?thesis by (simp add: paranaUrlWith_def)
qed

lemma paranaUrlWith_no_hash:
  "CHR ''#'' \<notin> set ym \<Longrightarrow> CHR ''#'' \<notin> set td \<Longrightarrow> CHR ''#'' \<notin> set (paranaUrlWith ym td)"
  by (simp add: paranaUrlWith_def)

lemma setUrl_fixed:
  "\<not> str_contains (urlParanaDataset s) ''#VAR1#''
   \<Longrightarrow> \<not> str_contains (urlParanaDataset s) ''#VAR2#''
   \<Longrightarrow> setUrlParanaDataset ym td s = s"
  by (simp add: setUrlParanaDataset_def str_replace_absent)

lemma setUrl_init:
  "urlParanaDataset s = urlParanaDataset_init \<Longrightarrow> CHR ''#'' \<notin> set ym
   \<Longrightarrow> urlParanaDataset (setUrlParanaDataset ym td s) = paranaUrlWith ym td"
  by (simp add: setUrlParanaDataset_def parana_second)

section \<open>Facts about dates\<close>

lemma digit_no_hash: "digit n \<noteq> CHR ''#''"
proof -
  have "digit n \<in> set ''0123456789''"
    unfolding digit_def by (rule nth_mem) simp
  then show ?thesis by auto
qed

lemma strftime_no_hash:
  "CHR ''#'' \<notin> set (strftime_Y_m d)" "CHR ''#'' \<notin> set (strftime_d_m_Y d)"
  using digit_no_hash [symmetric]
  by (auto simp: strftime_Y_m_def strftime_d_m_Y_def pad2_def pad4_def)

lemmas date_defs =
  paranaFragments_def paranaDatasetUpdateHour_def datetime_ge_def minus_one_day_def
  strftime_Y_m_def strftime_d_m_Y_def pad2_def pad4_def digit_def days_in_month_def
  is_leap_def Let_def

text \<open>With the date unchanged, \<open>now >= now.replace(hour=15, ...)\<close> compares the hour.\<close>

lemma datetime_ge_cutoff: "datetime_ge now (paranaDatasetUpdateHour now) \<longleftrightarrow> 15 \<le> hour now"
  by (auto simp: datetime_ge_def paranaDatasetUpdateHour_def)

lemma upt_1_12: "[Suc 0..<12] = [1, 2, 3, 4, 5, 6, 7, 8, 9, 10, 11]"
  by code_simp

lemma days_before_month_12: "days_before_month y 12 = 334 + (if is_leap y then 1 else 0)"
  by (simp add: days_before_month_def upt_1_12 days_in_month_def)

lemma days_before_month_step:
  assumes "1 < m"
  shows "days_before_month y m = days_before_month y (m - 1) + days_in_month y (m - 1)"
proof -
  from assms obtain k where k: "m = Suc k" "1 \<le> k" by (cases m) auto
  then show ?thesis by (simp add: days_before_month_def)
qed

lemma div_step: "0 < c \<Longrightarrow> Suc k div c = k div c + (if Suc k mod c = 0 then 1 else 0)"
  by (simp add: div_Suc)

lemma leap_count:
  fixes A B C a b c k :: nat
  assumes "B \<le> A" "b \<le> a" "c \<le> b" "a \<le> 1"
  shows "365 * (k + 1) + (A + a) + (C + c) - (B + b)
         = (365 * k + A + C - B) + 365 + (if a = 1 \<and> (b = 0 \<or> c = 1) then 1 else 0)"
  using assms by (auto split: if_splits)

lemma days_before_year_step:
  assumes "1 < y"
  shows "days_before_year y
         = days_before_year (y - 1) + 365 + (if is_leap (y - 1) then 1 else 0)"
proof -
  define k where "k = y - 2"
  have k: "y = Suc (Suc k)" using assms by (simp add: k_def)
  define n where "n = Suc k"
  define a :: nat where "a = (if n mod 4 = 0 then 1 else 0)"
  define b :: nat where "b = (if n mod 100 = 0 then 1 else 0)"
  define c :: nat where "c = (if n mod 400 = 0 then 1 else 0)"
  have a: "n div 4 = k div 4 + a" unfolding n_def a_def by (rule div_step) simp
  have b: "n div 100 = k div 100 + b" unfolding n_def b_def by (rule div_step) simp
  have c: "n div 400 = k div 400 + c" unfolding n_def c_def by (rule div_step) simp
  have d: "k div 100 \<le> k div 4" by (rule div_le_mono2) simp_all
  have e: "n mod 4 = 0" if "n mod 100 = 0"
  proof -
    from that have "100 dvd n" by (simp add: dvd_eq_mod_eq_0)
    moreover have "(4::nat) dvd 100" by simp
    ultimately have "4 dvd n" by (rule dvd_trans [rotated])
    then show ?thesis by (simp add: dvd_eq_mod_eq_0)
  qed
  have f: "n mod 100 = 0" if "n mod 400 = 0"
  proof -
    from that have "400 dvd n" by (simp add: dvd_eq_mod_eq_0)
    moreover have "(100::nat) dvd 400" by simp
    ultimately have "100 dvd n" by (rule dvd_trans [rotated])
    then show ?thesis by (simp add: dvd_eq_mod_eq_0)
  qed
  have ba: "b \<le> a" using e by (auto simp: a_def b_def)
  have cb: "c \<le> b" using f by (auto simp: b_def c_def)
  have a1: "a \<le> 1" by (simp add: a_def)
  have y1: "days_before_year y
            = 365 * (k + 1) + (k div 4 + a) + (k div 400 + c) - (k div 100 + b)"
    using a b c by (simp add: days_before_year_def k n_def)
  have y0: "days_before_year (y - 1) = 365 * k + k div 4 + k div 400 - k div 100"
    by (simp add: days_before_year_def k)
  have l: "is_leap (y - 1) \<longleftrightarrow> a = 1 \<and> (b = 0 \<or> c = 1)"
    by (simp add: is_leap_def k n_def a_def b_def c_def)
  show ?thesis unfolding y1 y0 l by (rule leap_count [OF d ba cb a1])
qed

lemma days_in_month_pos: "1 \<le> days_in_month y m"
  by (simp add: days_in_month_def)

lemma minus_one_day_day:
  assumes "valid_datetime d" "1 < day d"
  shows "minus_one_day d = Inr (d\<lparr>day := day d - 1\<rparr>)"
    "toordinal (d\<lparr>day := day d - 1\<rparr>) + 1 = toordinal d"
    "valid_datetime (d\<lparr>day := day d - 1\<rparr>)"
  using assms by (auto simp: minus_one_day_def toordinal_def valid_datetime_def)

lemma minus_one_day_month:
  assumes "valid_datetime d" "day d = 1" "1 < month d"
  shows "minus_one_day d
         = Inr (d\<lparr>month := month d - 1, day := days_in_month (year d) (month d - 1)\<rparr>)"
    "toordinal (d\<lparr>month := month d - 1, day := days_in_month (year d) (month d - 1)\<rparr>) + 1
     = toordinal d"
    "valid_datetime (d\<lparr>month := month d - 1, day := days_in_month (year d) (month d - 1)\<rparr>)"
  using assms days_before_month_step [OF assms(3), of "year d"]
    days_in_month_pos [of "year d" "month d - 1"]
  by (auto simp: minus_one_day_def toordinal_def valid_datetime_def)

lemma minus_one_day_year:
  assumes "valid_datetime d" "day d = 1" "month d = 1" "1 < year d"
  shows "minus_one_day d = Inr (d\<lparr>year := year d - 1, month := 12, day := 31\<rparr>)"
    "toordinal (d\<lparr>year := year d - 1, month := 12, day := 31\<rparr>) + 1 = toordinal d"
    "valid_datetime (d\<lparr>year := year d - 1, month := 12, day := 31\<rparr>)"
proof -
  show "minus_one_day d = Inr (d\<lparr>year := year d - 1, month := 12, day := 31\<rparr>)"
    using assms by (simp add: minus_one_day_def)
  have "days_before_month (year d) 1 = 0" by (simp add: days_before_month_def)
  then show "toordinal (d\<lparr>year := year d - 1, month := 12, day := 31\<rparr>) + 1 = toordinal d"
    using assms days_before_year_step [OF assms(4)] days_before_month_12 [of "year d - 1"]
    by (simp add: toordinal_def)
  show "valid_datetime (d\<lparr>year := year d - 1, month := 12, day := 31\<rparr>)"
    using assms by (auto simp: valid_datetime_def days_in_month_def)
qed

text \<open>
  Every date but 0001-01-01 has a day before it, and \<open>minus_one_day\<close> finds it: a valid
  date whose ordinal is one less.
\<close>

lemma minus_one_day_is_yesterday:
  assumes v: "valid_datetime d" and n: "\<not> (year d = 1 \<and> month d = 1 \<and> day d = 1)"
  shows "\<exists>y. minus_one_day d = Inr y \<and> valid_datetime y \<and> toordinal y + 1 = toordinal d"
proof -
  from v have "1 \<le> year d" "1 \<le> month d" "1 \<le> day d"
    by (simp_all add: valid_datetime_def)
  with n have "1 < day d \<or> (day d = 1 \<and> 1 < month d)
      \<or> (day d = 1 \<and> month d = 1 \<and> 1 < year d)"
    by arith
  then consider (day) "1 < day d" | (month) "day d = 1" "1 < month d"
    | (year) "day d = 1" "month d = 1" "1 < year d"
    by blast
  then show ?thesis
  proof cases
    case day
    from minus_one_day_day [OF v day] show ?thesis by blast
  next
    case month
    from minus_one_day_month [OF v month] show ?thesis by blast
  next
    case year
    from minus_one_day_year [OF v year] show ?thesis by blast
  qed
qed

lemma paranaFragments_no_hash:
  assumes "paranaFragments tDate now = Inr (ym, td)" "CHR ''#'' \<notin> set tDate"
  shows "CHR ''#'' \<notin> set ym \<and> CHR ''#'' \<notin> set td"
proof (cases "tDate = []")
  case True
  with assms(1) show ?thesis
    using strftime_no_hash
    by (auto simp: paranaFragments_def Let_def split: if_splits sum.splits)
next
  case False
  have "\<And>i x. index (str_split tDate (CHR ''/'')) i = Inr x \<Longrightarrow> CHR ''#'' \<notin> set x"
    using index_str_split assms(2) by blast
  with False assms(1) show ?thesis
    by (auto simp: paranaFragments_def Let_def split: sum.splits)
qed

lemma explicit_fragments:
  "paranaFragments ''05/03/2021'' now = Inr (''2021-03'', ''05_03_2021'')"
  by (simp add: paranaFragments_def index_def)

section \<open>Facts about the world and \<open>downloadDataset\<close>\<close>

lemma mkdir_Inr:
  "mkdir d s = Inr s1 \<Longrightarrow> s1 = s\<lparr>dirs := insert d (dirs s), mkdirs := mkdirs s @ [d]\<rparr>"
  by (auto simp: mkdir_def split: if_splits option.splits)

lemma write_file_fields [simp]:
  "urlParanaDataset (write_file p c s) = urlParanaDataset s"
  "datasetsDir (write_file p c s) = datasetsDir s"
  "dirs (write_file p c s) = dirs s"
  "specials (write_file p c s) = specials s"
  "requests (write_file p c s) = requests s"
  "stdout (write_file p c s) = stdout s"
  by (simp_all add: write_file_def)

lemma write_file_isfile: "p \<notin> specials s \<Longrightarrow> isfile (write_file p c s) p"
  by (simp add: write_file_def isfile_def)

lemma urlretrieve_fields:
  "urlParanaDataset (snd (urlretrieve url p s)) = urlParanaDataset s"
  "datasetsDir (snd (urlretrieve url p s)) = datasetsDir s"
  "dirs (snd (urlretrieve url p s)) = dirs s"
  "specials (snd (urlretrieve url p s)) = specials s"
  "requests (snd (urlretrieve url p s)) = requests s @ [url]"
  "stdout (snd (urlretrieve url p s)) = stdout s"
  by (simp_all add: urlretrieve_def Let_def split: response.splits)

lemma urlretrieve_Inr:
  "urlretrieve url p s = (Inr u, s1) \<Longrightarrow>
     \<exists>body. s1 = write_file p body (s\<lparr>requests := requests s @ [url]\<rparr>)"
  by (auto simp: urlretrieve_def Let_def split: response.splits if_splits)

lemma print_fields [simp]:
  "urlParanaDataset (print l s) = urlParanaDataset s"
  "datasetsDir (print l s) = datasetsDir s"
  "dirs (print l s) = dirs s"
  "files (print l s) = files s"
  "specials (print l s) = specials s"
  "mkdir_env (print l s) = mkdir_env s"
  "net (print l s) = net s"
  "mkdirs (print l s) = mkdirs s"
  "requests (print l s) = requests s"
  "stdout (print l s) = stdout s @ [l]"
  by (simp_all add: print_def)

lemma print_isdir [simp]: "isdir (print l s) p = isdir s p"
  by (simp add: isdir_def)

lemma print_isfile [simp]: "isfile (print l s) p = isfile s p"
  by (simp add: isfile_def)

lemma print_path_exists [simp]: "path_exists (print l s) p = path_exists s p"
  by (simp add: path_exists_def)

lemma checkDatasetDir_eq:
  "checkDatasetDir d s = (isdir s (if d \<noteq> [] then d else datasetsDir s), s)"
  by (simp add: checkDatasetDir_def)

lemma checkDataset_eq:
  "checkDataset n d s = (isfile s ((if d \<noteq> [] then d else datasetsDir s) @ ''/'' @ n), s)"
  by (simp add: checkDataset_def)

lemma downloadDataset_unfold:
  "downloadDataset url d n ow s =
     (case dir_step d s of
        Inl e \<Rightarrow> (Inl e, s)
      | Inr s1 \<Rightarrow> fetch_step url d n ow s1)"
  unfolding downloadDataset_def dir_step_def fetch_step_def checkDatasetDir_eq checkDataset_eq
    Let_def
  by (simp split: sum.splits)

lemma dir_step_Inr:
  assumes "dir_step d s = Inr s1"
  shows "files s1 = files s" "requests s1 = requests s" "specials s1 = specials s"
    "urlParanaDataset s1 = urlParanaDataset s" "datasetsDir s1 = datasetsDir s"
    "d \<noteq> [] \<Longrightarrow> isdir s1 d" "\<exists>ls. stdout s1 = stdout s @ ls"
proof -
  from assms consider
    (made) "s1 = s\<lparr>dirs := insert d (dirs s), mkdirs := mkdirs s @ [d]\<rparr>"
  | (there) "isdir s (if d \<noteq> [] then d else datasetsDir s)"
      "s1 = print (''The target directory '' @ quoted d @ '' already exists.'') s"
    by (auto simp: dir_step_def dest: mkdir_Inr split: if_splits)
  then show "files s1 = files s" "requests s1 = requests s" "specials s1 = specials s"
    "urlParanaDataset s1 = urlParanaDataset s" "datasetsDir s1 = datasetsDir s"
    "d \<noteq> [] \<Longrightarrow> isdir s1 d" "\<exists>ls. stdout s1 = stdout s @ ls"
    by (cases; simp add: isdir_def)+
qed

lemma fetch_step_path: "fst (fetch_step url d n ow s) = Inr p \<Longrightarrow> p = d @ ''/'' @ n"
  by (auto simp: fetch_step_def split: if_splits prod.splits sum.splits)

lemma fetch_step_attrs:
  "urlParanaDataset (snd (fetch_step url d n ow s)) = urlParanaDataset s"
  "datasetsDir (snd (fetch_step url d n ow s)) = datasetsDir s"
proof -
  let ?s = "print ''Downloading csv file...'' (print (''Url: '' @ url) s)"
  obtain r s4 where u: "urlretrieve url (d @ ''/'' @ n) ?s = (r, s4)"
    by (cases "urlretrieve url (d @ ''/'' @ n) ?s")
  have "urlParanaDataset s4 = urlParanaDataset s" "datasetsDir s4 = datasetsDir s"
    using urlretrieve_fields(1,2) [of url "d @ ''/'' @ n" ?s] u by simp_all
  then show "urlParanaDataset (snd (fetch_step url d n ow s)) = urlParanaDataset s"
    "datasetsDir (snd (fetch_step url d n ow s)) = datasetsDir s"
    using u by (auto simp: fetch_step_def split: sum.splits)
qed

lemma fetch_step_stdout: "\<exists>ls. stdout (snd (fetch_step url d n ow s)) = stdout s @ ls"
proof -
  let ?s = "print ''Downloading csv file...'' (print (''Url: '' @ url) s)"
  obtain r s4 where u: "urlretrieve url (d @ ''/'' @ n) ?s = (r, s4)"
    by (cases "urlretrieve url (d @ ''/'' @ n) ?s")
  have "stdout s4 = stdout ?s"
    using urlretrieve_fields(6) [of url "d @ ''/'' @ n" ?s] u by simp
  then show ?thesis
    using u by (auto simp: fetch_step_def split: sum.splits)
qed

lemma fetch_step_absent:
  assumes "d \<noteq> []" "\<not> isfile s (d @ ''/'' @ n)" "d @ ''/'' @ n \<notin> specials s"
    and "fetch_step url d n ow s = (Inr p, s1)"
  shows "requests s1 = requests s @ [url]" "isfile s1 (d @ ''/'' @ n)" "dirs s1 = dirs s"
proof -
  let ?s = "print ''Downloading csv file...'' (print (''Url: '' @ url) s)"
  from assms obtain u s4 where u: "urlretrieve url (d @ ''/'' @ n) ?s = (Inr u, s4)"
    and s1: "s1 = print (''Dataset path: '' @ d @ ''/'' @ n) (print ''Download success!'' s4)"
    by (auto simp: fetch_step_def split: prod.splits sum.splits)
  from urlretrieve_Inr [OF u] obtain body where
    s4: "s4 = write_file (d @ ''/'' @ n) body (?s\<lparr>requests := requests ?s @ [url]\<rparr>)" ..
  have sp: "d @ ''/'' @ n \<notin> specials (?s\<lparr>requests := requests ?s @ [url]\<rparr>)"
    using assms(3) by simp
  show "requests s1 = requests s @ [url]" unfolding s1 s4 by simp
  show "isfile s1 (d @ ''/'' @ n)" unfolding s1 s4 using write_file_isfile [OF sp] by simp
  show "dirs s1 = dirs s" unfolding s1 s4 by simp
qed

lemma fetch_step_present:
  assumes "d \<noteq> []" "isfile s (d @ ''/'' @ n)"
  shows "fst (fetch_step url d n False s) = Inr (d @ ''/'' @ n)"
    "requests (snd (fetch_step url d n False s)) = requests s"
    "files (snd (fetch_step url d n False s)) = files s"
  using assms by (simp_all add: fetch_step_def)

text \<open>\<open>downloadDataset\<close> never assigns a class attribute and only adds to what is printed.\<close>

lemma downloadDataset_attrs:
  "urlParanaDataset (snd (downloadDataset url d n ow s)) = urlParanaDataset s"
  "datasetsDir (snd (downloadDataset url d n ow s)) = datasetsDir s"
  by (auto simp: downloadDataset_unfold fetch_step_attrs dir_step_Inr split: sum.splits)

lemma downloadDataset_stdout:
  "\<exists>ls. stdout (snd (downloadDataset url d n ow s)) = stdout s @ ls"
proof (cases "dir_step d s")
  case (Inl e)
  then show ?thesis by (simp add: downloadDataset_unfold)
next
  case (Inr s1)
  from dir_step_Inr(7) [OF Inr] obtain ls where "stdout s1 = stdout s @ ls" ..
  moreover from fetch_step_stdout obtain ls' where
    "stdout (snd (fetch_step url d n ow s1)) = stdout s1 @ ls'" ..
  ultimately show ?thesis using Inr by (simp add: downloadDataset_unfold)
qed

lemmas eval_defs =
  downloadDataset_unfold dir_step_def fetch_step_def fresh_def isdir_def isfile_def mkdir_def
  urlretrieve_def path_exists_def write_file_def quoted_def print_def Let_def net_all_def
  mkdir_ok_def

section \<open>Facts about the download methods\<close>

lemma downloadParana_Inr:
  assumes "paranaFragments tDate now = Inr (ym, td)"
  shows "downloadParanaDataset n tDate d wt ow now s
         = downloadDataset (urlParanaDataset (setUrlParanaDataset ym td s))
             (if d \<noteq> [] then d else datasetsDir s)
             (n @ (if wt then ''_'' @ td @ ''.csv'' else ''.csv'')) ow
             (setUrlParanaDataset ym td s)"
  using assms
  by (simp add: downloadParanaDataset_def getDatasetsDir_def getUrlParanaDataset_def Let_def)

lemma downloadParana_Inl:
  "paranaFragments tDate now = Inl e \<Longrightarrow> downloadParanaDataset n tDate d wt ow now s = (Inl e, s)"
  by (simp add: downloadParanaDataset_def)

lemma downloadParana_url:
  "urlParanaDataset (snd (downloadParanaDataset n tDate d wt ow now s))
   = (case paranaFragments tDate now of
        Inl e \<Rightarrow> urlParanaDataset s
      | Inr (ym, td) \<Rightarrow> urlParanaDataset (setUrlParanaDataset ym td s))"
  by (auto simp: downloadParana_Inr downloadParana_Inl downloadDataset_attrs split: sum.splits)

lemma downloadHopkins_unrecognised:
  assumes "str_lower kind \<notin> {''confirmed'', ''deaths'', ''recovered''}"
  shows "downloadHopkinsDataset n kind d wt ow now s
       = downloadDataset (hopkinsUrl kind) (if d \<noteq> [] then d else datasetsDir s)
           (n @ (if wt then ''_'' @ strftime_d_m_Y now @ ''.csv'' else ''.csv'')) ow
           (print kind_warning s)"
  using assms by (simp add: downloadHopkinsDataset_def getDatasetsDir_def Let_def)

lemma downloadHopkins_confirmed:
  assumes "str_lower kind = ''confirmed''"
  shows "downloadHopkinsDataset n kind d wt ow now s
       = downloadDataset (hopkinsUrl kind) (if d \<noteq> [] then d else datasetsDir s)
           (n @ ''confirmed_cases''
              @ (if wt then ''_'' @ strftime_d_m_Y now @ ''.csv'' else ''.csv'')) ow s"
  using assms by (simp add: downloadHopkinsDataset_def getDatasetsDir_def Let_def)

lemma downloadHopkins_deaths:
  assumes "str_lower kind = ''deaths''"
  shows "downloadHopkinsDataset n kind d wt ow now s
       = downloadDataset (hopkinsUrl kind) (if d \<noteq> [] then d else datasetsDir s)
           (n @ ''deaths'' @ (if wt then ''_'' @ strftime_d_m_Y now @ ''.csv'' else ''.csv'')) ow s"
  using assms by (simp add: downloadHopkinsDataset_def getDatasetsDir_def Let_def)

text \<open>
  No method other than \<open>downloadParanaDataset\<close> assigns \<open>__urlParanaDataset\<close>.
\<close>

lemma other_methods_keep_parana_url:
  "urlParanaDataset (setDatasetsDir newDir s) = urlParanaDataset s"
  "urlParanaDataset (snd (checkDatasetDir d s)) = urlParanaDataset s"
  "urlParanaDataset (snd (checkDataset n d s)) = urlParanaDataset s"
  "urlParanaDataset (snd (downloadHopkinsDataset n kind d wt ow now s)) = urlParanaDataset s"
  "urlParanaDataset (snd (downloadParanaCitiesWithIBGECodeDataset n d ow s)) = urlParanaDataset s"
  "urlParanaDataset (snd (downloadParanavaiRegionCitiesWithIBGECodeDataset n d ow s))
   = urlParanaDataset s"
  by (simp_all add: setDatasetsDir_def checkDatasetDir_eq checkDataset_eq
      downloadHopkinsDataset_def downloadParanaCitiesWithIBGECodeDataset_def
      downloadParanavaiRegionCitiesWithIBGECodeDataset_def downloadDataset_attrs Let_def
      split: prod.splits)

section \<open>The properties\<close>

text \<open>
  C8.  \<open>checkDatasetDir\<close> and \<open>checkDataset\<close> leave the state as it was: they only
  answer whether the directory, respectively the file inside the directory, exists.
  With an empty directory argument they look at the default directory, the class
  attribute that \<open>getDatasetsDir\<close> returns.
\<close>

theorem checks_are_pure_with_default:
  "checkDatasetDir dirArg s = (isdir s (if dirArg = [] then datasetsDir s else dirArg), s)
   \<and> checkDataset datasetName dirArg s
       = (isfile s ((if dirArg = [] then datasetsDir s else dirArg) @ ''/'' @ datasetName), s)
   \<and> checkDatasetDir [] s = (isdir s (getDatasetsDir s), s)
   \<and> checkDataset datasetName [] s = (isfile s (getDatasetsDir s @ ''/'' @ datasetName), s)"
  by (simp add: checkDatasetDir_def checkDataset_def getDatasetsDir_def)

text \<open>
  C10.  \<open>downloadParanavaiRegionCitiesWithIBGECodeDataset\<close> does exactly what
  \<open>downloadParanaCitiesWithIBGECodeDataset\<close> does on the same arguments: both download
  the URL of the identifier \<open>parana_cities_with_ibge_code\<close>.  Only the default value
  of \<open>csvFileName\<close> differs.
\<close>

theorem paranavai_same_remote_as_parana_cities:
  "downloadParanavaiRegionCitiesWithIBGECodeDataset csvFileName dirArg overwrite s
     = downloadParanaCitiesWithIBGECodeDataset csvFileName dirArg overwrite s
   \<and> downloadParanavaiRegionCitiesWithIBGECodeDataset csvFileName dirArg overwrite s
     = downloadDataset
         ''https://raw.githubusercontent.com/FlavioLucasFer/datascience/master/datasets/parana_cities_with_ibge_code.csv''
         (if dirArg = [] then getDatasetsDir s else dirArg) csvFileName overwrite s
   \<and> paranavaiRegion_csvFileName_default \<noteq> paranaCities_csvFileName_default"
  unfolding downloadParanavaiRegionCitiesWithIBGECodeDataset_def
    downloadParanaCitiesWithIBGECodeDataset_def Let_def own_url_value
  by (simp add: paranavaiRegion_csvFileName_default_def paranaCities_csvFileName_default_def)

text \<open>C10 at work: with its default file name, the second method requests that URL.\<close>

theorem paranavai_same_remote_as_parana_cities_witness:
  "downloadParanavaiRegionCitiesWithIBGECodeDataset paranavaiRegion_csvFileName_default []
       False world_empty
     = downloadParanaCitiesWithIBGECodeDataset paranavaiRegion_csvFileName_default []
         False world_empty
   \<and> requests (snd (downloadParanavaiRegionCitiesWithIBGECodeDataset
        paranavaiRegion_csvFileName_default [] False world_empty))
     = [''https://raw.githubusercontent.com/FlavioLucasFer/datascience/master/datasets/parana_cities_with_ibge_code.csv'']
   \<and> fst (downloadParanavaiRegionCitiesWithIBGECodeDataset
        paranavaiRegion_csvFileName_default [] False world_empty)
     = Inr ''./datasets-covid/paranavai_region_cities_with_ibge_code.csv''"
proof -
  note t = paranavai_same_remote_as_parana_cities
    [of paranavaiRegion_csvFileName_default "[]" False world_empty]
  have d: "getDatasetsDir world_empty = ''./datasets-covid''"
    by (simp add: getDatasetsDir_def world_empty_def fresh_def datasetsDir_init_def)
  from t have "downloadParanavaiRegionCitiesWithIBGECodeDataset
        paranavaiRegion_csvFileName_default [] False world_empty
      = downloadDataset
         ''https://raw.githubusercontent.com/FlavioLucasFer/datascience/master/datasets/parana_cities_with_ibge_code.csv''
         (if ([]::string) = [] then getDatasetsDir world_empty else []) paranavaiRegion_csvFileName_default
         False world_empty"
    by (rule conjunct1 [OF conjunct2])
  then have e: "downloadParanavaiRegionCitiesWithIBGECodeDataset
        paranavaiRegion_csvFileName_default [] False world_empty
      = downloadDataset
         ''https://raw.githubusercontent.com/FlavioLucasFer/datascience/master/datasets/parana_cities_with_ibge_code.csv''
         ''./datasets-covid'' ''paranavai_region_cities_with_ibge_code.csv'' False world_empty"
    by (simp only: d paranavaiRegion_csvFileName_default_def if_True simp_thms)
  have "requests (snd (downloadParanavaiRegionCitiesWithIBGECodeDataset
        paranavaiRegion_csvFileName_default [] False world_empty))
     = [''https://raw.githubusercontent.com/FlavioLucasFer/datascience/master/datasets/parana_cities_with_ibge_code.csv'']"
    unfolding e by (simp add: eval_defs world_empty_def)
  moreover have "fst (downloadParanavaiRegionCitiesWithIBGECodeDataset
        paranavaiRegion_csvFileName_default [] False world_empty)
     = Inr ''./datasets-covid/paranavai_region_cities_with_ibge_code.csv''"
    unfolding e by (simp add: eval_defs world_empty_def)
  moreover from t have "downloadParanavaiRegionCitiesWithIBGECodeDataset
        paranavaiRegion_csvFileName_default [] False world_empty
     = downloadParanaCitiesWithIBGECodeDataset paranavaiRegion_csvFileName_default []
         False world_empty"
    by (rule conjunct1)
  ultimately show ?thesis by (intro conjI)
qed

text \<open>
  C6.  Whenever \<open>downloadDataset\<close> returns, what it returns is the path
  \<open>dirToSave/csvFileName\<close>, whatever the state it started from and whether it fetched
  the file, skipped it or overwrote it.
\<close>

theorem downloadDataset_returns_path:
  "fst (downloadDataset url dirToSave csvFileName overwrite s) = Inr p
   \<Longrightarrow> p = dirToSave @ ''/'' @ csvFileName"
  by (auto simp: downloadDataset_unfold split: sum.splits dest: fetch_step_path)

text \<open>
  The three cases of C6 at work: a fresh download into a directory that is created,
  a file already present and skipped (no request), and a file overwritten (one request,
  new content).
\<close>

theorem downloadDataset_returns_path_witness:
  "fst (downloadDataset ''u'' ''d'' ''f.csv'' False world_empty) = Inr ''d/f.csv''
   \<and> requests (snd (downloadDataset ''u'' ''d'' ''f.csv'' False world_empty)) = [''u'']
   \<and> fst (downloadDataset ''u'' ''d'' ''f.csv'' False world_with_file) = Inr ''d/f.csv''
   \<and> requests (snd (downloadDataset ''u'' ''d'' ''f.csv'' False world_with_file)) = []
   \<and> fst (downloadDataset ''u'' ''d'' ''f.csv'' True world_with_file) = Inr ''d/f.csv''
   \<and> requests (snd (downloadDataset ''u'' ''d'' ''f.csv'' True world_with_file)) = [''u'']
   \<and> files (snd (downloadDataset ''u'' ''d'' ''f.csv'' True world_with_file)) ''d/f.csv''
       = Some ''body''
   \<and> ''d/f.csv'' = ''d'' @ ''/'' @ ''f.csv''"
proof -
  have a: "fst (downloadDataset ''u'' ''d'' ''f.csv'' False world_empty) = Inr ''d/f.csv''"
    by (simp add: eval_defs world_empty_def)
  have b: "fst (downloadDataset ''u'' ''d'' ''f.csv'' False world_with_file) = Inr ''d/f.csv''"
    by (simp add: eval_defs world_with_file_def)
  have c: "fst (downloadDataset ''u'' ''d'' ''f.csv'' True world_with_file) = Inr ''d/f.csv''"
    by (simp add: eval_defs world_with_file_def)
  have ra: "requests (snd (downloadDataset ''u'' ''d'' ''f.csv'' False world_empty)) = [''u'']"
    by (simp add: eval_defs world_empty_def)
  have rb: "requests (snd (downloadDataset ''u'' ''d'' ''f.csv'' False world_with_file)) = []"
    by (simp add: eval_defs world_with_file_def)
  have rc: "requests (snd (downloadDataset ''u'' ''d'' ''f.csv'' True world_with_file)) = [''u'']"
    by (simp add: eval_defs world_with_file_def)
  have fc: "files (snd (downloadDataset ''u'' ''d'' ''f.csv'' True world_with_file)) ''d/f.csv''
       = Some ''body''"
    by (simp add: eval_defs world_with_file_def)
  note p = downloadDataset_returns_path [OF a]
  show ?thesis by (intro conjI a ra b rb c rc fc p)
qed

text \<open>
  C5, as amended.  Let the directory argument be non-empty, let the target path name
  nothing before the first call (no file, no directory, no device), and let the first
  call with \<open>overwrite = False\<close> return.  Then the first call made exactly one
  request, and a second call from the state it left returns the same path, makes no
  request and leaves the files as they are.
\<close>

theorem downloadDataset_twice_one_request:
  assumes "dirToSave \<noteq> []"
    and "\<not> path_exists s (dirToSave @ ''/'' @ csvFileName)"
    and "downloadDataset url dirToSave csvFileName False s = (Inr p, s1)"
  shows "requests s1 = requests s @ [url]
       \<and> fst (downloadDataset url dirToSave csvFileName False s1) = Inr p
       \<and> requests (snd (downloadDataset url dirToSave csvFileName False s1)) = requests s1
       \<and> files (snd (downloadDataset url dirToSave csvFileName False s1)) = files s1"
proof -
  from assms(3) obtain s0 where s0: "dir_step dirToSave s = Inr s0"
    and f: "fetch_step url dirToSave csvFileName False s0 = (Inr p, s1)"
    by (auto simp: downloadDataset_unfold split: sum.splits)
  have p: "p = dirToSave @ ''/'' @ csvFileName"
    using fetch_step_path [of url dirToSave csvFileName False s0 p] f by simp
  have absent: "\<not> isfile s0 (dirToSave @ ''/'' @ csvFileName)"
    using assms(2) dir_step_Inr(1) [OF s0] by (simp add: isfile_def path_exists_def)
  have plain: "dirToSave @ ''/'' @ csvFileName \<notin> specials s0"
    using assms(2) dir_step_Inr(3) [OF s0] by (simp add: path_exists_def)
  note first = fetch_step_absent [OF assms(1) absent plain f]
  have dir1: "isdir s1 dirToSave"
    using dir_step_Inr(6) [OF s0 assms(1)] first(3) by (simp add: isdir_def)
  let ?s1' = "print (''The target directory '' @ quoted dirToSave @ '' already exists.'') s1"
  have step2: "dir_step dirToSave s1 = Inr ?s1'"
    using dir1 assms(1) by (simp add: dir_step_def)
  have present: "isfile ?s1' (dirToSave @ ''/'' @ csvFileName)"
    using first(2) by simp
  note second = fetch_step_present [OF assms(1) present, of url]
  have "requests s1 = requests s @ [url]"
    using first(1) dir_step_Inr(2) [OF s0] by simp
  moreover have "fst (downloadDataset url dirToSave csvFileName False s1) = Inr p"
    using second(1) p by (simp add: downloadDataset_unfold step2)
  moreover have "requests (snd (downloadDataset url dirToSave csvFileName False s1)) = requests s1"
    using second(2) by (simp add: downloadDataset_unfold step2)
  moreover have "files (snd (downloadDataset url dirToSave csvFileName False s1)) = files s1"
    using second(3) by (simp add: downloadDataset_unfold step2)
  ultimately show ?thesis by (intro conjI)
qed

lemma first_download_world_empty:
  "downloadDataset ''u'' ''d'' ''f.csv'' False world_empty
   = (Inr ''d/f.csv'',
      world_empty\<lparr>dirs := {''d''}, files := [''d/f.csv'' \<mapsto> ''body''],
        mkdirs := [''d''], requests := [''u''],
        stdout := [''Url: u'', ''Downloading csv file...'', ''Download success!'',
                   ''Dataset path: d/f.csv'']\<rparr>)"
  by (simp add: eval_defs world_empty_def)

text \<open>The amended C5 at work: a directory that is created, one request in two calls.\<close>

theorem downloadDataset_twice_one_request_witness:
  "''d'' \<noteq> []
   \<and> \<not> path_exists world_empty (''d'' @ ''/'' @ ''f.csv'')
   \<and> fst (downloadDataset ''u'' ''d'' ''f.csv'' False world_empty) = Inr ''d/f.csv''
   \<and> requests (snd (downloadDataset ''u'' ''d'' ''f.csv'' False world_empty))
       = requests world_empty @ [''u'']
   \<and> fst (downloadDataset ''u'' ''d'' ''f.csv'' False
        (snd (downloadDataset ''u'' ''d'' ''f.csv'' False world_empty))) = Inr ''d/f.csv''
   \<and> requests (snd (downloadDataset ''u'' ''d'' ''f.csv'' False
        (snd (downloadDataset ''u'' ''d'' ''f.csv'' False world_empty))))
       = requests (snd (downloadDataset ''u'' ''d'' ''f.csv'' False world_empty))"
proof -
  have h1: "''d'' \<noteq> []" by simp
  have h2: "\<not> path_exists world_empty (''d'' @ ''/'' @ ''f.csv'')"
    by (simp add: path_exists_def isdir_def isfile_def world_empty_def fresh_def)
  note h3 = first_download_world_empty
  note t = downloadDataset_twice_one_request [OF h1 h2 h3]
  have r: "fst (downloadDataset ''u'' ''d'' ''f.csv'' False world_empty) = Inr ''d/f.csv''"
    unfolding h3 by (rule fst_conv)
  show ?thesis
    unfolding h3 snd_conv fst_conv
    using h1 h2 t by (intro conjI) (simp_all only: simp_thms)
qed

lemma first_download_world_with_file:
  "downloadDataset ''u'' ''d'' ''f.csv'' False world_with_file
   = (Inr ''d/f.csv'',
      world_with_file\<lparr>stdout :=
        [''The target directory '' @ quoted ''d'' @ '' already exists.'', ''Url: u'',
         ''Csv file '' @ quoted ''f.csv'' @ '' already downloaded!'',
         ''Dataset path: d/f.csv'']\<rparr>)"
  by (simp add: eval_defs world_with_file_def)

lemma second_download_world_with_file:
  "fst (downloadDataset ''u'' ''d'' ''f.csv'' False
      (world_with_file\<lparr>stdout :=
        [''The target directory '' @ quoted ''d'' @ '' already exists.'', ''Url: u'',
         ''Csv file '' @ quoted ''f.csv'' @ '' already downloaded!'',
         ''Dataset path: d/f.csv'']\<rparr>)) = Inr ''d/f.csv''"
  "requests (snd (downloadDataset ''u'' ''d'' ''f.csv'' False
      (world_with_file\<lparr>stdout :=
        [''The target directory '' @ quoted ''d'' @ '' already exists.'', ''Url: u'',
         ''Csv file '' @ quoted ''f.csv'' @ '' already downloaded!'',
         ''Dataset path: d/f.csv'']\<rparr>))) = []"
  by (simp_all add: eval_defs world_with_file_def)

lemma world_with_file_fields:
  "isfile world_with_file ''d/f.csv''" "requests world_with_file = []"
  by (simp_all add: isfile_def world_with_file_def fresh_def)

text \<open>
  The condition on the target path in the amended C5 is needed.  When the file is there
  before the first call, both calls return the path and neither makes a request.
\<close>

lemma downloadDataset_twice_present_no_request:
  "isfile world_with_file ''d/f.csv''
   \<and> requests world_with_file = []
   \<and> fst (downloadDataset ''u'' ''d'' ''f.csv'' False world_with_file) = Inr ''d/f.csv''
   \<and> fst (downloadDataset ''u'' ''d'' ''f.csv'' False
        (snd (downloadDataset ''u'' ''d'' ''f.csv'' False world_with_file))) = Inr ''d/f.csv''
   \<and> requests (snd (downloadDataset ''u'' ''d'' ''f.csv'' False
        (snd (downloadDataset ''u'' ''d'' ''f.csv'' False world_with_file)))) = []"
  unfolding first_download_world_with_file snd_conv fst_conv
  by (intro conjI refl world_with_file_fields second_download_world_with_file)

lemma first_download_empty_dir:
  "downloadDataset ''u'' [] ''f.csv'' False world_default_dir
   = (Inr ''/f.csv'',
      world_default_dir\<lparr>files := [''/f.csv'' \<mapsto> ''body''], requests := [''u''],
        stdout := [''The target directory '' @ quoted [] @ '' already exists.'', ''Url: u'',
                   ''Downloading csv file...'', ''Download success!'',
                   ''Dataset path: /f.csv'']\<rparr>)"
  by (simp add: eval_defs world_default_dir_def datasetsDir_init_def)

lemma second_download_empty_dir:
  "fst (downloadDataset ''u'' [] ''f.csv'' False
      (world_default_dir\<lparr>files := [''/f.csv'' \<mapsto> ''body''], requests := [''u''],
        stdout := [''The target directory '' @ quoted [] @ '' already exists.'', ''Url: u'',
                   ''Downloading csv file...'', ''Download success!'',
                   ''Dataset path: /f.csv'']\<rparr>)) = Inr ''/f.csv''"
  "requests (snd (downloadDataset ''u'' [] ''f.csv'' False
      (world_default_dir\<lparr>files := [''/f.csv'' \<mapsto> ''body''], requests := [''u''],
        stdout := [''The target directory '' @ quoted [] @ '' already exists.'', ''Url: u'',
                   ''Downloading csv file...'', ''Download success!'',
                   ''Dataset path: /f.csv'']\<rparr>))) = [''u'', ''u'']"
  "isfile (world_default_dir\<lparr>files := [''/f.csv'' \<mapsto> ''body''], requests := [''u''],
        stdout := [''The target directory '' @ quoted [] @ '' already exists.'', ''Url: u'',
                   ''Downloading csv file...'', ''Download success!'',
                   ''Dataset path: /f.csv'']\<rparr>) ''/f.csv''"
  by (simp_all add: eval_defs world_default_dir_def datasetsDir_init_def)

text \<open>
  So it is when the target path names a device: the write goes through, the path names
  no regular file afterwards, and the second call fetches again.
\<close>

lemma first_download_dev_null:
  "downloadDataset ''u'' ''/dev'' ''null'' False world_dev_null
   = (Inr ''/dev/null'',
      world_dev_null\<lparr>requests := [''u''],
        stdout := [''The target directory '' @ quoted ''/dev'' @ '' already exists.'', ''Url: u'',
                   ''Downloading csv file...'', ''Download success!'',
                   ''Dataset path: /dev/null'']\<rparr>)"
  by (simp add: eval_defs world_dev_null_def)

lemma second_download_dev_null:
  "requests (snd (downloadDataset ''u'' ''/dev'' ''null'' False
      (world_dev_null\<lparr>requests := [''u''],
        stdout := [''The target directory '' @ quoted ''/dev'' @ '' already exists.'', ''Url: u'',
                   ''Downloading csv file...'', ''Download success!'',
                   ''Dataset path: /dev/null'']\<rparr>))) = [''u'', ''u'']"
  by (simp add: eval_defs world_dev_null_def)

lemma downloadDataset_twice_device_two_requests:
  "\<not> isfile world_dev_null ''/dev/null''
   \<and> requests (snd (downloadDataset ''u'' ''/dev'' ''null'' False
        (snd (downloadDataset ''u'' ''/dev'' ''null'' False world_dev_null)))) = [''u'', ''u'']"
proof -
  have a: "\<not> isfile world_dev_null ''/dev/null''"
    by (simp add: isfile_def world_dev_null_def fresh_def)
  have b: "requests (snd (downloadDataset ''u'' ''/dev'' ''null'' False
        (snd (downloadDataset ''u'' ''/dev'' ''null'' False world_dev_null)))) = [''u'', ''u'']"
    unfolding first_download_dev_null snd_conv by (rule second_download_dev_null)
  show ?thesis by (intro conjI a b)
qed

text \<open>
  C5 as stated fails for the empty directory name.  \<open>downloadDataset\<close> takes it like
  any other string: its two checks fall back to the default directory, while the file
  is written to \<open>/f.csv\<close>.  With the default directory there and the file absent
  everywhere, both calls return \<open>/f.csv\<close> and both make a request, although the
  file is at the returned path after the first call.
\<close>

theorem downloadDataset_twice_empty_dir_two_requests:
  "fst (downloadDataset ''u'' [] ''f.csv'' False world_default_dir) = Inr ''/f.csv''
   \<and> isfile (snd (downloadDataset ''u'' [] ''f.csv'' False world_default_dir)) ''/f.csv''
   \<and> fst (downloadDataset ''u'' [] ''f.csv'' False
        (snd (downloadDataset ''u'' [] ''f.csv'' False world_default_dir))) = Inr ''/f.csv''
   \<and> requests (snd (downloadDataset ''u'' [] ''f.csv'' False
        (snd (downloadDataset ''u'' [] ''f.csv'' False world_default_dir)))) = [''u'', ''u'']"
  unfolding first_download_empty_dir snd_conv fst_conv
  by (intro conjI refl second_download_empty_dir)

text \<open>
  C3.  Without an explicit date, the target date follows the 15:00 cutoff of the day
  read from the clock: from 15:00:00 on, both fragments are those of that day; before
  15:00 the target date is the day before (the valid date whose ordinal is one less),
  which every day but 0001-01-01 has.
\<close>

theorem cutoff_rule:
  assumes "valid_datetime now"
  shows "(15 \<le> hour now \<longrightarrow>
           paranaFragments [] now = Inr (strftime_Y_m now, strftime_d_m_Y now))
       \<and> (hour now < 15 \<longrightarrow> \<not> (year now = 1 \<and> month now = 1 \<and> day now = 1) \<longrightarrow>
           (\<exists>ym yesterday. minus_one_day now = Inr yesterday
              \<and> valid_datetime yesterday \<and> toordinal yesterday + 1 = toordinal now
              \<and> paranaFragments [] now = Inr (ym, strftime_d_m_Y yesterday)))"
proof (intro conjI impI)
  assume "15 \<le> hour now"
  then show "paranaFragments [] now = Inr (strftime_Y_m now, strftime_d_m_Y now)"
    by (simp add: paranaFragments_def datetime_ge_cutoff)
next
  assume h: "hour now < 15" and "\<not> (year now = 1 \<and> month now = 1 \<and> day now = 1)"
  with minus_one_day_is_yesterday [OF assms] obtain y where
    y: "minus_one_day now = Inr y" "valid_datetime y" "toordinal y + 1 = toordinal now"
    by blast
  from h y(1) have "paranaFragments [] now = Inr (strftime_Y_m now, strftime_d_m_Y y)"
    by (simp add: paranaFragments_def datetime_ge_cutoff)
  with y show "\<exists>ym yesterday. minus_one_day now = Inr yesterday
              \<and> valid_datetime yesterday \<and> toordinal yesterday + 1 = toordinal now
              \<and> paranaFragments [] now = Inr (ym, strftime_d_m_Y yesterday)"
    by blast
qed

lemma valid_examples:
  "valid_datetime now_1500" "valid_datetime now_1459" "valid_datetime now_0301_1000"
  by (simp_all add: valid_datetime_def now_1500_def now_1459_def now_0301_1000_def
      days_in_month_def)

lemma fragments_1500: "paranaFragments [] now_1500 = Inr (''2021-03'', ''05_03_2021'')"
  by (simp add: date_defs now_1500_def)

lemma fragments_1459: "paranaFragments [] now_1459 = Inr (''2021-03'', ''04_03_2021'')"
  by (simp add: date_defs now_1459_def)

text \<open>C3 at 15:00:00 sharp and one second before, on 5 March 2021.\<close>

theorem cutoff_rule_witness:
  "valid_datetime now_1500 \<and> 15 \<le> hour now_1500
   \<and> paranaFragments [] now_1500 = Inr (strftime_Y_m now_1500, strftime_d_m_Y now_1500)
   \<and> paranaFragments [] now_1500 = Inr (''2021-03'', ''05_03_2021'')
   \<and> valid_datetime now_1459 \<and> hour now_1459 < 15
   \<and> \<not> (year now_1459 = 1 \<and> month now_1459 = 1 \<and> day now_1459 = 1)
   \<and> (\<exists>ym yesterday. minus_one_day now_1459 = Inr yesterday
         \<and> valid_datetime yesterday \<and> toordinal yesterday + 1 = toordinal now_1459
         \<and> paranaFragments [] now_1459 = Inr (ym, strftime_d_m_Y yesterday))
   \<and> paranaFragments [] now_1459 = Inr (''2021-03'', ''04_03_2021'')"
proof -
  have a: "15 \<le> hour now_1500" by (simp add: now_1500_def)
  have b: "hour now_1459 < 15" by (simp add: now_1459_def)
  have c: "\<not> (year now_1459 = 1 \<and> month now_1459 = 1 \<and> day now_1459 = 1)"
    by (simp add: now_1459_def)
  from cutoff_rule [OF valid_examples(1)] a
  have d: "paranaFragments [] now_1500 = Inr (strftime_Y_m now_1500, strftime_d_m_Y now_1500)"
    by blast
  from cutoff_rule [OF valid_examples(2)] b c
  have e: "\<exists>ym yesterday. minus_one_day now_1459 = Inr yesterday
         \<and> valid_datetime yesterday \<and> toordinal yesterday + 1 = toordinal now_1459
         \<and> paranaFragments [] now_1459 = Inr (ym, strftime_d_m_Y yesterday)" by blast
  show ?thesis
    by (intro conjI valid_examples(1) valid_examples(2) a b c d e fragments_1500 fragments_1459)
qed

text \<open>
  On the class as loaded, the call with the explicit date \<open>05/03/2021\<close> stores and
  downloads the URL whose directory part is \<open>2021-03\<close> and whose file part carries
  \<open>05_03_2021\<close>, whatever the other arguments, the clock and the world.
\<close>

lemma explicit_date_first_call:
  assumes "urlParanaDataset s = urlParanaDataset_init"
  shows "downloadParanaDataset csvFileName ''05/03/2021'' dirArg csvFileNameWithTDate overwrite now s
         = downloadDataset
             ''https://www.saude.pr.gov.br/sites/default/arquivos_restritos/files/documento/2021-03/informe_epidemiologico_05_03_2021_geral.csv''
             (if dirArg \<noteq> [] then dirArg else datasetsDir s)
             (csvFileName @ (if csvFileNameWithTDate then ''_05_03_2021.csv'' else ''.csv''))
             overwrite
             (s\<lparr>urlParanaDataset :=
                 ''https://www.saude.pr.gov.br/sites/default/arquivos_restritos/files/documento/2021-03/informe_epidemiologico_05_03_2021_geral.csv''\<rparr>)
       \<and> str_contains
           ''https://www.saude.pr.gov.br/sites/default/arquivos_restritos/files/documento/2021-03/informe_epidemiologico_05_03_2021_geral.csv''
           ''2021-03''
       \<and> str_contains
           ''https://www.saude.pr.gov.br/sites/default/arquivos_restritos/files/documento/2021-03/informe_epidemiologico_05_03_2021_geral.csv''
           ''05_03_2021''"
proof -
  have u: "str_replace (str_replace (urlParanaDataset s) ''#VAR1#'' ''2021-03'')
             ''#VAR2#'' ''05_03_2021''
        = ''https://www.saude.pr.gov.br/sites/default/arquivos_restritos/files/documento/2021-03/informe_epidemiologico_05_03_2021_geral.csv''"
    using parana_second [of "''2021-03''" "''05_03_2021''"] assms
    by (simp add: paranaUrlWith_def)
  have "downloadParanaDataset csvFileName ''05/03/2021'' dirArg csvFileNameWithTDate overwrite now s
         = downloadDataset
             ''https://www.saude.pr.gov.br/sites/default/arquivos_restritos/files/documento/2021-03/informe_epidemiologico_05_03_2021_geral.csv''
             (if dirArg \<noteq> [] then dirArg else datasetsDir s)
             (csvFileName @ (if csvFileNameWithTDate then ''_05_03_2021.csv'' else ''.csv''))
             overwrite
             (s\<lparr>urlParanaDataset :=
                 ''https://www.saude.pr.gov.br/sites/default/arquivos_restritos/files/documento/2021-03/informe_epidemiologico_05_03_2021_geral.csv''\<rparr>)"
    unfolding downloadParana_Inr [OF explicit_fragments] setUrlParanaDataset_def u by simp
  then show ?thesis by simp
qed

lemma hash_free:
  "CHR ''#'' \<notin> set ''2021-03''" "CHR ''#'' \<notin> set ''05/03/2021''"
  by simp_all

lemma world_empty_fields:
  "urlParanaDataset world_empty = urlParanaDataset_init"
  "datasetsDir world_empty = ''./datasets-covid''"
  "requests world_empty = []"
  by (simp_all add: world_empty_def fresh_def datasetsDir_init_def)

lemma parana_download_world_empty:
  "downloadDataset
     ''https://www.saude.pr.gov.br/sites/default/arquivos_restritos/files/documento/2021-03/informe_epidemiologico_05_03_2021_geral.csv''
     ''./datasets-covid'' ''daily_newsletter_covid_parana.csv'' False
     (world_empty\<lparr>urlParanaDataset :=
        ''https://www.saude.pr.gov.br/sites/default/arquivos_restritos/files/documento/2021-03/informe_epidemiologico_05_03_2021_geral.csv''\<rparr>)
   = (Inr ''./datasets-covid/daily_newsletter_covid_parana.csv'',
      world_empty\<lparr>urlParanaDataset :=
          ''https://www.saude.pr.gov.br/sites/default/arquivos_restritos/files/documento/2021-03/informe_epidemiologico_05_03_2021_geral.csv'',
        dirs := {''./datasets-covid''}, mkdirs := [''./datasets-covid''],
        files := [''./datasets-covid/daily_newsletter_covid_parana.csv'' \<mapsto> ''body''],
        requests :=
          [''https://www.saude.pr.gov.br/sites/default/arquivos_restritos/files/documento/2021-03/informe_epidemiologico_05_03_2021_geral.csv''],
        stdout :=
          [''Url: https://www.saude.pr.gov.br/sites/default/arquivos_restritos/files/documento/2021-03/informe_epidemiologico_05_03_2021_geral.csv'',
           ''Downloading csv file...'', ''Download success!'',
           ''Dataset path: ./datasets-covid/daily_newsletter_covid_parana.csv'']\<rparr>)"
  by (simp add: eval_defs world_empty_def)

lemma first_parana_call:
  "downloadParanaDataset ''daily_newsletter_covid_parana'' ''05/03/2021'' [] False False
     now_1500 world_empty
   = (Inr ''./datasets-covid/daily_newsletter_covid_parana.csv'',
      world_empty\<lparr>urlParanaDataset :=
          ''https://www.saude.pr.gov.br/sites/default/arquivos_restritos/files/documento/2021-03/informe_epidemiologico_05_03_2021_geral.csv'',
        dirs := {''./datasets-covid''}, mkdirs := [''./datasets-covid''],
        files := [''./datasets-covid/daily_newsletter_covid_parana.csv'' \<mapsto> ''body''],
        requests :=
          [''https://www.saude.pr.gov.br/sites/default/arquivos_restritos/files/documento/2021-03/informe_epidemiologico_05_03_2021_geral.csv''],
        stdout :=
          [''Url: https://www.saude.pr.gov.br/sites/default/arquivos_restritos/files/documento/2021-03/informe_epidemiologico_05_03_2021_geral.csv'',
           ''Downloading csv file...'', ''Download success!'',
           ''Dataset path: ./datasets-covid/daily_newsletter_covid_parana.csv'']\<rparr>)"
proof -
  have "downloadParanaDataset ''daily_newsletter_covid_parana'' ''05/03/2021'' [] False False
     now_1500 world_empty
     = downloadDataset
     ''https://www.saude.pr.gov.br/sites/default/arquivos_restritos/files/documento/2021-03/informe_epidemiologico_05_03_2021_geral.csv''
     ''./datasets-covid'' ''daily_newsletter_covid_parana.csv'' False
     (world_empty\<lparr>urlParanaDataset :=
        ''https://www.saude.pr.gov.br/sites/default/arquivos_restritos/files/documento/2021-03/informe_epidemiologico_05_03_2021_geral.csv''\<rparr>)"
    unfolding downloadParana_Inr [OF explicit_fragments] setUrlParanaDataset_def
      world_empty_fields parana_second [OF hash_free(1)] paranaUrlWith_def
    by simp
  then show ?thesis by (simp only: parana_download_world_empty)
qed

text \<open>
  C9.  Take the class as loaded and a first call of \<open>downloadParanaDataset\<close> that gets
  as far as its fragments, with a date argument free of the character \<open>#\<close> (every
  day/month/year date is, and so is the empty argument).  The call leaves in
  \<open>__urlParanaDataset\<close> the template filled with its own fragments, without
  placeholder.  From then on, in any state that still holds this URL, a call with any
  arguments leaves the URL as it is, and when it gets as far as the download it
  downloads that URL.
\<close>

theorem parana_url_frozen_after_first_call:
  assumes init: "urlParanaDataset s = urlParanaDataset_init"
    and nohash: "CHR ''#'' \<notin> set tDate"
    and frag: "paranaFragments tDate now = Inr (yearAndMonth, targetDate)"
    and s1: "s1 = snd (downloadParanaDataset csvFileName tDate dirArg withTDate overwrite now s)"
    and later: "urlParanaDataset s' = urlParanaDataset s1"
  shows "urlParanaDataset s1 = paranaUrlWith yearAndMonth targetDate
       \<and> \<not> str_contains (urlParanaDataset s1) ''#VAR1#''
       \<and> \<not> str_contains (urlParanaDataset s1) ''#VAR2#''
       \<and> urlParanaDataset
            (snd (downloadParanaDataset csvFileName2 tDate2 dirArg2 withTDate2 overwrite2 now2 s'))
           = urlParanaDataset s1
       \<and> (\<forall>ym2 td2. paranaFragments tDate2 now2 = Inr (ym2, td2) \<longrightarrow>
            downloadParanaDataset csvFileName2 tDate2 dirArg2 withTDate2 overwrite2 now2 s'
            = downloadDataset (urlParanaDataset s1)
                (if dirArg2 \<noteq> [] then dirArg2 else datasetsDir s')
                (csvFileName2 @ (if withTDate2 then ''_'' @ td2 @ ''.csv'' else ''.csv''))
                overwrite2 s')"
proof -
  from paranaFragments_no_hash [OF frag nohash]
  have nh: "CHR ''#'' \<notin> set yearAndMonth" "CHR ''#'' \<notin> set targetDate" by simp_all
  have url1: "urlParanaDataset s1 = paranaUrlWith yearAndMonth targetDate"
    unfolding s1 downloadParana_url frag using setUrl_init [OF init nh(1)] by simp
  have "CHR ''#'' \<notin> set (urlParanaDataset s1)"
    unfolding url1 using nh by (rule paranaUrlWith_no_hash)
  then have free: "\<not> str_contains (urlParanaDataset s1) ''#VAR1#''"
    "\<not> str_contains (urlParanaDataset s1) ''#VAR2#''"
    by (simp_all add: not_contains_fresh)
  have fixed: "setUrlParanaDataset ym2 td2 s' = s'" for ym2 td2
    using free later by (simp add: setUrl_fixed)
  have keep: "urlParanaDataset
        (snd (downloadParanaDataset csvFileName2 tDate2 dirArg2 withTDate2 overwrite2 now2 s'))
      = urlParanaDataset s1"
    unfolding downloadParana_url using later by (simp add: fixed split: sum.splits)
  have same: "downloadParanaDataset csvFileName2 tDate2 dirArg2 withTDate2 overwrite2 now2 s'
            = downloadDataset (urlParanaDataset s1)
                (if dirArg2 \<noteq> [] then dirArg2 else datasetsDir s')
                (csvFileName2 @ (if withTDate2 then ''_'' @ td2 @ ''.csv'' else ''.csv''))
                overwrite2 s'"
    if "paranaFragments tDate2 now2 = Inr (ym2, td2)" for ym2 td2
    unfolding downloadParana_Inr [OF that] fixed later ..
  from url1 free keep same show ?thesis by blast
qed

lemma fragments_0604: "paranaFragments ''06/04/2021'' now = Inr (''2021-04'', ''06_04_2021'')"
  by (simp add: paranaFragments_def index_def)

lemma second_parana_download:
  "requests (snd (downloadDataset
     ''https://www.saude.pr.gov.br/sites/default/arquivos_restritos/files/documento/2021-03/informe_epidemiologico_05_03_2021_geral.csv''
     ''./datasets-covid'' ''daily_newsletter_covid_parana.csv'' True
     (world_empty\<lparr>urlParanaDataset :=
          ''https://www.saude.pr.gov.br/sites/default/arquivos_restritos/files/documento/2021-03/informe_epidemiologico_05_03_2021_geral.csv'',
        dirs := {''./datasets-covid''}, mkdirs := [''./datasets-covid''],
        files := [''./datasets-covid/daily_newsletter_covid_parana.csv'' \<mapsto> ''body''],
        requests :=
          [''https://www.saude.pr.gov.br/sites/default/arquivos_restritos/files/documento/2021-03/informe_epidemiologico_05_03_2021_geral.csv''],
        stdout :=
          [''Url: https://www.saude.pr.gov.br/sites/default/arquivos_restritos/files/documento/2021-03/informe_epidemiologico_05_03_2021_geral.csv'',
           ''Downloading csv file...'', ''Download success!'',
           ''Dataset path: ./datasets-covid/daily_newsletter_covid_parana.csv'']\<rparr>)))
   = [''https://www.saude.pr.gov.br/sites/default/arquivos_restritos/files/documento/2021-03/informe_epidemiologico_05_03_2021_geral.csv'',
      ''https://www.saude.pr.gov.br/sites/default/arquivos_restritos/files/documento/2021-03/informe_epidemiologico_05_03_2021_geral.csv'']"
  by (simp add: eval_defs world_empty_def)

text \<open>
  C9 at work: a second call for 6 April, overwriting, stores and again requests the URL
  of 5 March.
\<close>

theorem parana_url_frozen_after_first_call_witness:
  "urlParanaDataset world_empty = urlParanaDataset_init
   \<and> CHR ''#'' \<notin> set ''05/03/2021''
   \<and> paranaFragments ''05/03/2021'' now_1500 = Inr (''2021-03'', ''05_03_2021'')
   \<and> urlParanaDataset (snd (downloadParanaDataset ''daily_newsletter_covid_parana''
        ''05/03/2021'' [] False False now_1500 world_empty))
       = ''https://www.saude.pr.gov.br/sites/default/arquivos_restritos/files/documento/2021-03/informe_epidemiologico_05_03_2021_geral.csv''
   \<and> urlParanaDataset (snd (downloadParanaDataset ''daily_newsletter_covid_parana''
        ''06/04/2021'' [] False True now_1459
        (snd (downloadParanaDataset ''daily_newsletter_covid_parana''
           ''05/03/2021'' [] False False now_1500 world_empty))))
       = ''https://www.saude.pr.gov.br/sites/default/arquivos_restritos/files/documento/2021-03/informe_epidemiologico_05_03_2021_geral.csv''
   \<and> requests (snd (downloadParanaDataset ''daily_newsletter_covid_parana''
        ''06/04/2021'' [] False True now_1459
        (snd (downloadParanaDataset ''daily_newsletter_covid_parana''
           ''05/03/2021'' [] False False now_1500 world_empty))))
       = [''https://www.saude.pr.gov.br/sites/default/arquivos_restritos/files/documento/2021-03/informe_epidemiologico_05_03_2021_geral.csv'',
          ''https://www.saude.pr.gov.br/sites/default/arquivos_restritos/files/documento/2021-03/informe_epidemiologico_05_03_2021_geral.csv'']"
proof -
  let ?s1 = "snd (downloadParanaDataset ''daily_newsletter_covid_parana''
           ''05/03/2021'' [] False False now_1500 world_empty)"
  note t = parana_url_frozen_after_first_call [OF world_empty_fields(1) hash_free(2)
      explicit_fragments [of now_1500] refl refl,
      of "''daily_newsletter_covid_parana''" "[]" False False
         "''daily_newsletter_covid_parana''" "''06/04/2021''" "[]" False True now_1459]
  from t have u1: "urlParanaDataset ?s1 = paranaUrlWith ''2021-03'' ''05_03_2021''"
    by (rule conjunct1)
  then have a: "urlParanaDataset ?s1
       = ''https://www.saude.pr.gov.br/sites/default/arquivos_restritos/files/documento/2021-03/informe_epidemiologico_05_03_2021_geral.csv''"
    by (simp add: paranaUrlWith_def)
  from t have "urlParanaDataset (snd (downloadParanaDataset ''daily_newsletter_covid_parana''
        ''06/04/2021'' [] False True now_1459 ?s1)) = urlParanaDataset ?s1"
    by (rule conjunct1 [OF conjunct2 [OF conjunct2 [OF conjunct2]]])
  then have b: "urlParanaDataset (snd (downloadParanaDataset ''daily_newsletter_covid_parana''
        ''06/04/2021'' [] False True now_1459 ?s1))
       = ''https://www.saude.pr.gov.br/sites/default/arquivos_restritos/files/documento/2021-03/informe_epidemiologico_05_03_2021_geral.csv''"
    by (simp only: a)
  from t have "\<forall>ym2 td2. paranaFragments ''06/04/2021'' now_1459 = Inr (ym2, td2) \<longrightarrow>
            downloadParanaDataset ''daily_newsletter_covid_parana'' ''06/04/2021'' [] False True
              now_1459 ?s1
            = downloadDataset (urlParanaDataset ?s1)
                (if ([]::string) \<noteq> [] then [] else datasetsDir ?s1)
                (''daily_newsletter_covid_parana''
                   @ (if False then ''_'' @ td2 @ ''.csv'' else ''.csv''))
                True ?s1"
    by (rule conjunct2 [OF conjunct2 [OF conjunct2 [OF conjunct2]]])
  with fragments_0604 [of now_1459]
  have "downloadParanaDataset ''daily_newsletter_covid_parana'' ''06/04/2021'' [] False True
              now_1459 ?s1
            = downloadDataset (urlParanaDataset ?s1)
                (if ([]::string) \<noteq> [] then [] else datasetsDir ?s1)
                (''daily_newsletter_covid_parana''
                   @ (if False then ''_'' @ ''06_04_2021'' @ ''.csv'' else ''.csv''))
                True ?s1"
    by blast
  then have c: "requests (snd (downloadParanaDataset ''daily_newsletter_covid_parana''
        ''06/04/2021'' [] False True now_1459 ?s1))
       = [''https://www.saude.pr.gov.br/sites/default/arquivos_restritos/files/documento/2021-03/informe_epidemiologico_05_03_2021_geral.csv'',
          ''https://www.saude.pr.gov.br/sites/default/arquivos_restritos/files/documento/2021-03/informe_epidemiologico_05_03_2021_geral.csv'']"
    unfolding a unfolding first_parana_call snd_conv
    by (simp add: second_parana_download world_empty_fields)
  show ?thesis
    by (intro conjI world_empty_fields(1) hash_free(2) explicit_fragments a b c)
qed

text \<open>
  C7, as amended.  When the lower-cased \<open>kind\<close> is none of \<open>confirmed\<close>, \<open>deaths\<close>,
  \<open>recovered\<close>, \<open>downloadHopkinsDataset\<close> prints its warning and goes on to
  \<open>downloadDataset\<close> as for any other kind, with nothing appended to the file name.
  The kind is not put into the URL: what is downloaded is the URL of the confirmed cases.
\<close>

theorem unrecognised_kind_warns_and_proceeds:
  assumes "str_lower kind \<notin> {''confirmed'', ''deaths'', ''recovered''}"
  shows "downloadHopkinsDataset csvFileName kind dirArg withTDate overwrite now s
         = downloadDataset
             ''https://raw.githubusercontent.com/CSSEGISandData/COVID-19/master/csse_covid_19_data/csse_covid_19_time_series/time_series_covid19_confirmed_global.csv''
             (if dirArg \<noteq> [] then dirArg else datasetsDir s)
             (csvFileName @ (if withTDate then ''_'' @ strftime_d_m_Y now @ ''.csv'' else ''.csv''))
             overwrite (print kind_warning s)
       \<and> kind_warning \<in> set (stdout (snd
           (downloadHopkinsDataset csvFileName kind dirArg withTDate overwrite now s)))
       \<and> hopkinsUrl kind = getUrlHopkinsGlobalConfirmedCases"
proof -
  let ?u = "''https://raw.githubusercontent.com/CSSEGISandData/COVID-19/master/csse_covid_19_data/csse_covid_19_time_series/time_series_covid19_confirmed_global.csv''"
  let ?d = "if dirArg \<noteq> [] then dirArg else datasetsDir s"
  let ?n = "csvFileName @ (if withTDate then ''_'' @ strftime_d_m_Y now @ ''.csv'' else ''.csv'')"
  have u: "hopkinsUrl kind = ?u"
    by (simp only: hopkinsUrl_any hopkins_confirmed_value)
  have eq: "downloadHopkinsDataset csvFileName kind dirArg withTDate overwrite now s
         = downloadDataset ?u ?d ?n overwrite (print kind_warning s)"
    unfolding downloadHopkins_unrecognised [OF assms] u ..
  from downloadDataset_stdout [of ?u ?d ?n overwrite "print kind_warning s"]
  obtain ls where "stdout (snd (downloadDataset ?u ?d ?n overwrite (print kind_warning s)))
      = stdout (print kind_warning s) @ ls" ..
  then have "kind_warning
      \<in> set (stdout (snd (downloadDataset ?u ?d ?n overwrite (print kind_warning s))))"
    by simp
  then have w: "kind_warning \<in> set (stdout (snd
           (downloadHopkinsDataset csvFileName kind dirArg withTDate overwrite now s)))"
    by (simp only: eq)
  show ?thesis by (intro conjI eq w hopkinsUrl_any)
qed

lemma hopkins_download_after_warning:
  "downloadDataset
     ''https://raw.githubusercontent.com/CSSEGISandData/COVID-19/master/csse_covid_19_data/csse_covid_19_time_series/time_series_covid19_confirmed_global.csv''
     ''./datasets-covid'' ''hopkins_global_.csv'' False (print kind_warning world_empty)
   = (Inr ''./datasets-covid/hopkins_global_.csv'',
      world_empty\<lparr>dirs := {''./datasets-covid''}, mkdirs := [''./datasets-covid''],
        files := [''./datasets-covid/hopkins_global_.csv'' \<mapsto> ''body''],
        requests :=
          [''https://raw.githubusercontent.com/CSSEGISandData/COVID-19/master/csse_covid_19_data/csse_covid_19_time_series/time_series_covid19_confirmed_global.csv''],
        stdout :=
          [kind_warning,
           ''Url: https://raw.githubusercontent.com/CSSEGISandData/COVID-19/master/csse_covid_19_data/csse_covid_19_time_series/time_series_covid19_confirmed_global.csv'',
           ''Downloading csv file...'', ''Download success!'',
           ''Dataset path: ./datasets-covid/hopkins_global_.csv'']\<rparr>)"
  by (simp add: eval_defs world_empty_def)

text \<open>The amended C7 at work, for the kind \<open>active\<close>.\<close>

theorem unrecognised_kind_warns_and_proceeds_witness:
  "str_lower ''active'' \<notin> {''confirmed'', ''deaths'', ''recovered''}
   \<and> fst (downloadHopkinsDataset ''hopkins_global_'' ''active'' [] False False now_1500
        world_empty) = Inr ''./datasets-covid/hopkins_global_.csv''
   \<and> requests (snd (downloadHopkinsDataset ''hopkins_global_'' ''active'' [] False False now_1500
        world_empty))
       = [''https://raw.githubusercontent.com/CSSEGISandData/COVID-19/master/csse_covid_19_data/csse_covid_19_time_series/time_series_covid19_confirmed_global.csv'']
   \<and> kind_warning \<in> set (stdout (snd (downloadHopkinsDataset ''hopkins_global_'' ''active'' []
        False False now_1500 world_empty)))"
proof -
  note t = unrecognised_kind_warns_and_proceeds [OF lower_active,
      where csvFileName = "''hopkins_global_''" and dirArg = "[]" and withTDate = False
        and overwrite = False and now = now_1500 and s = world_empty]
  from t have e: "downloadHopkinsDataset ''hopkins_global_'' ''active'' [] False False now_1500
        world_empty
      = downloadDataset
          ''https://raw.githubusercontent.com/CSSEGISandData/COVID-19/master/csse_covid_19_data/csse_covid_19_time_series/time_series_covid19_confirmed_global.csv''
          ''./datasets-covid'' ''hopkins_global_.csv'' False (print kind_warning world_empty)"
    by (simp add: world_empty_fields)
  have a: "fst (downloadHopkinsDataset ''hopkins_global_'' ''active'' [] False False now_1500
        world_empty) = Inr ''./datasets-covid/hopkins_global_.csv''"
    unfolding e hopkins_download_after_warning by (rule fst_conv)
  have b: "requests (snd (downloadHopkinsDataset ''hopkins_global_'' ''active'' [] False False
        now_1500 world_empty))
       = [''https://raw.githubusercontent.com/CSSEGISandData/COVID-19/master/csse_covid_19_data/csse_covid_19_time_series/time_series_covid19_confirmed_global.csv'']"
    unfolding e hopkins_download_after_warning snd_conv by simp
  from t have c: "kind_warning \<in> set (stdout (snd (downloadHopkinsDataset ''hopkins_global_''
        ''active'' [] False False now_1500 world_empty)))"
    by (rule conjunct1 [OF conjunct2])
  show ?thesis by (intro conjI lower_active a b c)
qed

lemma hopkins_download_Confirmed:
  "downloadDataset
     ''https://raw.githubusercontent.com/CSSEGISandData/COVID-19/master/csse_covid_19_data/csse_covid_19_time_series/time_series_covid19_confirmed_global.csv''
     ''./datasets-covid'' ''hopkins_global_confirmed_cases.csv'' False world_empty
   = (Inr ''./datasets-covid/hopkins_global_confirmed_cases.csv'',
      world_empty\<lparr>dirs := {''./datasets-covid''}, mkdirs := [''./datasets-covid''],
        files := [''./datasets-covid/hopkins_global_confirmed_cases.csv'' \<mapsto> ''body''],
        requests :=
          [''https://raw.githubusercontent.com/CSSEGISandData/COVID-19/master/csse_covid_19_data/csse_covid_19_time_series/time_series_covid19_confirmed_global.csv''],
        stdout :=
          [''Url: https://raw.githubusercontent.com/CSSEGISandData/COVID-19/master/csse_covid_19_data/csse_covid_19_time_series/time_series_covid19_confirmed_global.csv'',
           ''Downloading csv file...'', ''Download success!'',
           ''Dataset path: ./datasets-covid/hopkins_global_confirmed_cases.csv'']\<rparr>)"
  by (simp add: eval_defs world_empty_def)

text \<open>
  C7 as stated fails for a kind that is outside the three names but is one of them once
  lower-cased: \<open>Confirmed\<close> is taken as \<open>confirmed\<close>, and no warning is printed.
\<close>

theorem capitalised_kind_no_warning:
  "''Confirmed'' \<notin> {''confirmed'', ''deaths'', ''recovered''}
   \<and> fst (downloadHopkinsDataset ''hopkins_global_'' ''Confirmed'' [] False False now_1500
        world_empty) = Inr ''./datasets-covid/hopkins_global_confirmed_cases.csv''
   \<and> kind_warning \<notin> set (stdout (snd
        (downloadHopkinsDataset ''hopkins_global_'' ''Confirmed'' [] False False now_1500
           world_empty)))"
proof -
  have e: "downloadHopkinsDataset ''hopkins_global_'' ''Confirmed'' [] False False now_1500
        world_empty
      = downloadDataset
          ''https://raw.githubusercontent.com/CSSEGISandData/COVID-19/master/csse_covid_19_data/csse_covid_19_time_series/time_series_covid19_confirmed_global.csv''
          ''./datasets-covid'' ''hopkins_global_confirmed_cases.csv'' False world_empty"
    unfolding downloadHopkins_confirmed [OF lower_Confirmed] hopkinsUrl_any
      hopkins_confirmed_value
    by (simp add: world_empty_fields)
  have a: "''Confirmed'' \<notin> {''confirmed'', ''deaths'', ''recovered''}" by simp
  have b: "fst (downloadHopkinsDataset ''hopkins_global_'' ''Confirmed'' [] False False now_1500
        world_empty) = Inr ''./datasets-covid/hopkins_global_confirmed_cases.csv''"
    unfolding e hopkins_download_Confirmed by (rule fst_conv)
  have c: "kind_warning \<notin> set (stdout (snd
        (downloadHopkinsDataset ''hopkins_global_'' ''Confirmed'' [] False False now_1500
           world_empty)))"
    unfolding e hopkins_download_Confirmed snd_conv by (simp add: kind_warning_def)
  show ?thesis by (intro conjI a b c)
qed

lemma hopkins_download_deaths:
  "downloadDataset
     ''https://raw.githubusercontent.com/CSSEGISandData/COVID-19/master/csse_covid_19_data/csse_covid_19_time_series/time_series_covid19_confirmed_global.csv''
     ''./datasets-covid'' ''hopkins_global_deaths.csv'' False world_empty
   = (Inr ''./datasets-covid/hopkins_global_deaths.csv'',
      world_empty\<lparr>dirs := {''./datasets-covid''}, mkdirs := [''./datasets-covid''],
        files := [''./datasets-covid/hopkins_global_deaths.csv'' \<mapsto> ''body''],
        requests :=
          [''https://raw.githubusercontent.com/CSSEGISandData/COVID-19/master/csse_covid_19_data/csse_covid_19_time_series/time_series_covid19_confirmed_global.csv''],
        stdout :=
          [''Url: https://raw.githubusercontent.com/CSSEGISandData/COVID-19/master/csse_covid_19_data/csse_covid_19_time_series/time_series_covid19_confirmed_global.csv'',
           ''Downloading csv file...'', ''Download success!'',
           ''Dataset path: ./datasets-covid/hopkins_global_deaths.csv'']\<rparr>)"
  by (simp add: eval_defs world_empty_def)

text \<open>
  C1 does not hold at \<open>kind = deaths\<close>: the file is named after the deaths, and the
  URL that is requested is the URL of the confirmed cases.  It holds no placeholder, it
  does not contain \<open>deaths\<close>, and it is not the URL that
  \<open>getUrlHopkinsGlobalDeaths\<close> builds from the same template.
\<close>

theorem deaths_kind_requests_confirmed_url:
  "fst (downloadHopkinsDataset ''hopkins_global_'' ''deaths'' [] False False now_1500 world_empty)
     = Inr ''./datasets-covid/hopkins_global_deaths.csv''
   \<and> requests (snd (downloadHopkinsDataset ''hopkins_global_'' ''deaths'' [] False False now_1500
        world_empty))
     = [''https://raw.githubusercontent.com/CSSEGISandData/COVID-19/master/csse_covid_19_data/csse_covid_19_time_series/time_series_covid19_confirmed_global.csv'']
   \<and> \<not> str_contains (hopkinsUrl ''deaths'') ''deaths''
   \<and> \<not> str_contains (hopkinsUrl ''deaths'') ''#VAR1#''
   \<and> hopkinsUrl ''deaths'' \<noteq> getUrlHopkinsGlobalDeaths
   \<and> str_contains getUrlHopkinsGlobalDeaths ''deaths''"
proof -
  have e: "downloadHopkinsDataset ''hopkins_global_'' ''deaths'' [] False False now_1500
        world_empty
      = downloadDataset
          ''https://raw.githubusercontent.com/CSSEGISandData/COVID-19/master/csse_covid_19_data/csse_covid_19_time_series/time_series_covid19_confirmed_global.csv''
          ''./datasets-covid'' ''hopkins_global_deaths.csv'' False world_empty"
    unfolding downloadHopkins_deaths [OF lower_deaths] hopkinsUrl_any hopkins_confirmed_value
    by (simp add: world_empty_fields)
  have a: "fst (downloadHopkinsDataset ''hopkins_global_'' ''deaths'' [] False False now_1500
        world_empty) = Inr ''./datasets-covid/hopkins_global_deaths.csv''"
    unfolding e hopkins_download_deaths by (rule fst_conv)
  have b: "requests (snd (downloadHopkinsDataset ''hopkins_global_'' ''deaths'' [] False False
        now_1500 world_empty))
     = [''https://raw.githubusercontent.com/CSSEGISandData/COVID-19/master/csse_covid_19_data/csse_covid_19_time_series/time_series_covid19_confirmed_global.csv'']"
    unfolding e hopkins_download_deaths snd_conv by simp
  have c: "\<not> str_contains (hopkinsUrl ''deaths'') ''deaths''"
    unfolding hopkinsUrl_any hopkins_confirmed_value by simp
  have d: "\<not> str_contains (hopkinsUrl ''deaths'') ''#VAR1#''"
    unfolding hopkinsUrl_any hopkins_confirmed_value by simp
  have f: "hopkinsUrl ''deaths'' \<noteq> getUrlHopkinsGlobalDeaths"
    unfolding hopkinsUrl_any hopkins_confirmed_value hopkins_deaths_value by simp
  have g: "str_contains getUrlHopkinsGlobalDeaths ''deaths''"
    unfolding hopkins_deaths_value by simp
  show ?thesis by (intro conjI a b c d f g)
qed

lemma fragments_0301: "paranaFragments [] now_0301_1000 = Inr (''2021-03'', ''28_02_2021'')"
  by (simp add: date_defs now_0301_1000_def)

lemma yesterday_0301:
  "minus_one_day now_0301_1000 = Inr (now_0301_1000\<lparr>month := 2, day := 28\<rparr>)"
  by (simp add: date_defs now_0301_1000_def)

lemma yesterday_0301_Y_m: "strftime_Y_m (now_0301_1000\<lparr>month := 2, day := 28\<rparr>) = ''2021-02''"
  by (simp add: date_defs now_0301_1000_def)

lemma yesterday_0301_d_m_Y:
  "strftime_d_m_Y (now_0301_1000\<lparr>month := 2, day := 28\<rparr>) = ''28_02_2021''"
  by (simp add: date_defs now_0301_1000_def)

lemma parana_url_0301:
  "urlParanaDataset (snd (downloadParanaDataset ''daily_newsletter_covid_parana'' [] [] False
       False now_0301_1000 world_empty))
   = ''https://www.saude.pr.gov.br/sites/default/arquivos_restritos/files/documento/2021-03/informe_epidemiologico_28_02_2021_geral.csv''"
  unfolding downloadParana_url fragments_0301
  using setUrl_init [OF world_empty_fields(1) hash_free(1), of "''28_02_2021''"]
  by (simp add: paranaUrlWith_def)

text \<open>
  C2 does not hold on the first day of a month before 15:00: the file part of the URL is
  the last day of the month before, the directory part is the month of the clock, not
  the month of that day.
\<close>

theorem first_of_month_fragments_disagree:
  "valid_datetime now_0301_1000
   \<and> paranaFragments [] now_0301_1000 = Inr (''2021-03'', ''28_02_2021'')
   \<and> minus_one_day now_0301_1000 = Inr (now_0301_1000\<lparr>month := 2, day := 28\<rparr>)
   \<and> strftime_d_m_Y (now_0301_1000\<lparr>month := 2, day := 28\<rparr>) = ''28_02_2021''
   \<and> strftime_Y_m (now_0301_1000\<lparr>month := 2, day := 28\<rparr>) = ''2021-02''
   \<and> urlParanaDataset (snd (downloadParanaDataset ''daily_newsletter_covid_parana'' [] [] False
        False now_0301_1000 world_empty))
      = ''https://www.saude.pr.gov.br/sites/default/arquivos_restritos/files/documento/2021-03/informe_epidemiologico_28_02_2021_geral.csv''"
  by (intro conjI valid_examples(3) fragments_0301 yesterday_0301 yesterday_0301_d_m_Y
      yesterday_0301_Y_m parana_url_0301)

lemma hash_free_0604: "CHR ''#'' \<notin> set ''2021-04''"
  by simp

lemma parana_download_0604:
  "downloadDataset
     ''https://www.saude.pr.gov.br/sites/default/arquivos_restritos/files/documento/2021-04/informe_epidemiologico_06_04_2021_geral.csv''
     ''./datasets-covid'' ''daily_newsletter_covid_parana.csv'' False
     (world_empty\<lparr>urlParanaDataset :=
        ''https://www.saude.pr.gov.br/sites/default/arquivos_restritos/files/documento/2021-04/informe_epidemiologico_06_04_2021_geral.csv''\<rparr>)
   = (Inr ''./datasets-covid/daily_newsletter_covid_parana.csv'',
      world_empty\<lparr>urlParanaDataset :=
          ''https://www.saude.pr.gov.br/sites/default/arquivos_restritos/files/documento/2021-04/informe_epidemiologico_06_04_2021_geral.csv'',
        dirs := {''./datasets-covid''}, mkdirs := [''./datasets-covid''],
        files := [''./datasets-covid/daily_newsletter_covid_parana.csv'' \<mapsto> ''body''],
        requests :=
          [''https://www.saude.pr.gov.br/sites/default/arquivos_restritos/files/documento/2021-04/informe_epidemiologico_06_04_2021_geral.csv''],
        stdout :=
          [''Url: https://www.saude.pr.gov.br/sites/default/arquivos_restritos/files/documento/2021-04/informe_epidemiologico_06_04_2021_geral.csv'',
           ''Downloading csv file...'', ''Download success!'',
           ''Dataset path: ./datasets-covid/daily_newsletter_covid_parana.csv'']\<rparr>)"
  by (simp add: eval_defs world_empty_def)

lemma earlier_call_0604:
  "downloadParanaDataset ''daily_newsletter_covid_parana'' ''06/04/2021'' [] False False
     now_1500 world_empty
   = (Inr ''./datasets-covid/daily_newsletter_covid_parana.csv'',
      world_empty\<lparr>urlParanaDataset :=
          ''https://www.saude.pr.gov.br/sites/default/arquivos_restritos/files/documento/2021-04/informe_epidemiologico_06_04_2021_geral.csv'',
        dirs := {''./datasets-covid''}, mkdirs := [''./datasets-covid''],
        files := [''./datasets-covid/daily_newsletter_covid_parana.csv'' \<mapsto> ''body''],
        requests :=
          [''https://www.saude.pr.gov.br/sites/default/arquivos_restritos/files/documento/2021-04/informe_epidemiologico_06_04_2021_geral.csv''],
        stdout :=
          [''Url: https://www.saude.pr.gov.br/sites/default/arquivos_restritos/files/documento/2021-04/informe_epidemiologico_06_04_2021_geral.csv'',
           ''Downloading csv file...'', ''Download success!'',
           ''Dataset path: ./datasets-covid/daily_newsletter_covid_parana.csv'']\<rparr>)"
proof -
  have "downloadParanaDataset ''daily_newsletter_covid_parana'' ''06/04/2021'' [] False False
     now_1500 world_empty
     = downloadDataset
     ''https://www.saude.pr.gov.br/sites/default/arquivos_restritos/files/documento/2021-04/informe_epidemiologico_06_04_2021_geral.csv''
     ''./datasets-covid'' ''daily_newsletter_covid_parana.csv'' False
     (world_empty\<lparr>urlParanaDataset :=
        ''https://www.saude.pr.gov.br/sites/default/arquivos_restritos/files/documento/2021-04/informe_epidemiologico_06_04_2021_geral.csv''\<rparr>)"
    unfolding downloadParana_Inr [OF fragments_0604] setUrlParanaDataset_def
      world_empty_fields parana_second [OF hash_free_0604] paranaUrlWith_def
    by simp
  then show ?thesis by (simp only: parana_download_0604)
qed

lemma later_call_0503:
  "downloadParanaDataset ''daily_newsletter_covid_parana'' ''05/03/2021'' [] False True now_1500
     (world_empty\<lparr>urlParanaDataset :=
          ''https://www.saude.pr.gov.br/sites/default/arquivos_restritos/files/documento/2021-04/informe_epidemiologico_06_04_2021_geral.csv'',
        dirs := {''./datasets-covid''}, mkdirs := [''./datasets-covid''],
        files := [''./datasets-covid/daily_newsletter_covid_parana.csv'' \<mapsto> ''body''],
        requests :=
          [''https://www.saude.pr.gov.br/sites/default/arquivos_restritos/files/documento/2021-04/informe_epidemiologico_06_04_2021_geral.csv''],
        stdout :=
          [''Url: https://www.saude.pr.gov.br/sites/default/arquivos_restritos/files/documento/2021-04/informe_epidemiologico_06_04_2021_geral.csv'',
           ''Downloading csv file...'', ''Download success!'',
           ''Dataset path: ./datasets-covid/daily_newsletter_covid_parana.csv'']\<rparr>)
   = (Inr ''./datasets-covid/daily_newsletter_covid_parana.csv'',
      world_empty\<lparr>urlParanaDataset :=
          ''https://www.saude.pr.gov.br/sites/default/arquivos_restritos/files/documento/2021-04/informe_epidemiologico_06_04_2021_geral.csv'',
        dirs := {''./datasets-covid''}, mkdirs := [''./datasets-covid''],
        files := [''./datasets-covid/daily_newsletter_covid_parana.csv'' \<mapsto> ''body''],
        requests :=
          [''https://www.saude.pr.gov.br/sites/default/arquivos_restritos/files/documento/2021-04/informe_epidemiologico_06_04_2021_geral.csv'',
           ''https://www.saude.pr.gov.br/sites/default/arquivos_restritos/files/documento/2021-04/informe_epidemiologico_06_04_2021_geral.csv''],
        stdout :=
          [''Url: https://www.saude.pr.gov.br/sites/default/arquivos_restritos/files/documento/2021-04/informe_epidemiologico_06_04_2021_geral.csv'',
           ''Downloading csv file...'', ''Download success!'',
           ''Dataset path: ./datasets-covid/daily_newsletter_covid_parana.csv'',
           ''The target directory '' @ quoted ''./datasets-covid'' @ '' already exists.'',
           ''Url: https://www.saude.pr.gov.br/sites/default/arquivos_restritos/files/documento/2021-04/informe_epidemiologico_06_04_2021_geral.csv'',
           ''Downloading csv file...'', ''Download success!'',
           ''Dataset path: ./datasets-covid/daily_newsletter_covid_parana.csv'']\<rparr>)"
proof -
  let ?u = "''https://www.saude.pr.gov.br/sites/default/arquivos_restritos/files/documento/2021-04/informe_epidemiologico_06_04_2021_geral.csv''"
  have a: "\<not> str_contains ?u ''#VAR1#''" by simp
  have b: "\<not> str_contains ?u ''#VAR2#''" by simp
  have r: "str_replace (str_replace ?u ''#VAR1#'' ''2021-03'') ''#VAR2#'' ''05_03_2021'' = ?u"
    by (simp only: str_replace_absent [OF a] str_replace_absent [OF b])
  show ?thesis
    unfolding downloadParana_Inr [OF explicit_fragments] setUrlParanaDataset_def
    by (simp add: r eval_defs world_empty_def datasetsDir_init_def)
qed

text \<open>
  C4 does not hold after an earlier call.  The call for 6 April has put its URL in the
  place of the template, so the call with \<open>05/03/2021\<close> finds no placeholder to fill:
  it stores and requests the URL of 6 April, which holds neither \<open>2021-03\<close> nor
  \<open>05_03_2021\<close>.
\<close>

theorem explicit_date_after_earlier_call:
  "fst (downloadParanaDataset ''daily_newsletter_covid_parana'' ''05/03/2021'' [] False True
        now_1500
        (snd (downloadParanaDataset ''daily_newsletter_covid_parana'' ''06/04/2021'' [] False
           False now_1500 world_empty)))
     = Inr ''./datasets-covid/daily_newsletter_covid_parana.csv''
   \<and> urlParanaDataset (snd (downloadParanaDataset ''daily_newsletter_covid_parana''
        ''05/03/2021'' [] False True now_1500
        (snd (downloadParanaDataset ''daily_newsletter_covid_parana'' ''06/04/2021'' [] False
           False now_1500 world_empty))))
     = ''https://www.saude.pr.gov.br/sites/default/arquivos_restritos/files/documento/2021-04/informe_epidemiologico_06_04_2021_geral.csv''
   \<and> requests (snd (downloadParanaDataset ''daily_newsletter_covid_parana''
        ''05/03/2021'' [] False True now_1500
        (snd (downloadParanaDataset ''daily_newsletter_covid_parana'' ''06/04/2021'' [] False
           False now_1500 world_empty))))
     = [''https://www.saude.pr.gov.br/sites/default/arquivos_restritos/files/documento/2021-04/informe_epidemiologico_06_04_2021_geral.csv'',
        ''https://www.saude.pr.gov.br/sites/default/arquivos_restritos/files/documento/2021-04/informe_epidemiologico_06_04_2021_geral.csv'']
   \<and> \<not> str_contains
        ''https://www.saude.pr.gov.br/sites/default/arquivos_restritos/files/documento/2021-04/informe_epidemiologico_06_04_2021_geral.csv''
        ''2021-03''
   \<and> \<not> str_contains
        ''https://www.saude.pr.gov.br/sites/default/arquivos_restritos/files/documento/2021-04/informe_epidemiologico_06_04_2021_geral.csv''
        ''05_03_2021''"
proof -
  have a: "fst (downloadParanaDataset ''daily_newsletter_covid_parana'' ''05/03/2021'' [] False True
        now_1500
        (snd (downloadParanaDataset ''daily_newsletter_covid_parana'' ''06/04/2021'' [] False
           False now_1500 world_empty)))
     = Inr ''./datasets-covid/daily_newsletter_covid_parana.csv''"
    unfolding earlier_call_0604 snd_conv later_call_0503 by (rule fst_conv)
  have b: "urlParanaDataset (snd (downloadParanaDataset ''daily_newsletter_covid_parana''
        ''05/03/2021'' [] False True now_1500
        (snd (downloadParanaDataset ''daily_newsletter_covid_parana'' ''06/04/2021'' [] False
           False now_1500 world_empty))))
     = ''https://www.saude.pr.gov.br/sites/default/arquivos_restritos/files/documento/2021-04/informe_epidemiologico_06_04_2021_geral.csv''"
    unfolding earlier_call_0604 snd_conv later_call_0503 by simp
  have c: "requests (snd (downloadParanaDataset ''daily_newsletter_covid_parana''
        ''05/03/2021'' [] False True now_1500
        (snd (downloadParanaDataset ''daily_newsletter_covid_parana'' ''06/04/2021'' [] False
           False now_1500 world_empty))))
     = [''https://www.saude.pr.gov.br/sites/default/arquivos_restritos/files/documento/2021-04/informe_epidemiologico_06_04_2021_geral.csv'',
        ''https://www.saude.pr.gov.br/sites/default/arquivos_restritos/files/documento/2021-04/informe_epidemiologico_06_04_2021_geral.csv'']"
    unfolding earlier_call_0604 snd_conv later_call_0503 by simp
  have d: "\<not> str_contains
        ''https://www.saude.pr.gov.br/sites/default/arquivos_restritos/files/documento/2021-04/informe_epidemiologico_06_04_2021_geral.csv''
        ''2021-03''"
    by simp
  have e: "\<not> str_contains
        ''https://www.saude.pr.gov.br/sites/default/arquivos_restritos/files/documento/2021-04/informe_epidemiologico_06_04_2021_geral.csv''
        ''05_03_2021''"
    by simp
  show ?thesis by (intro conjI a b c d e)
qed

end
